theory Spec2Isabelle
  imports Complex_Main "HOL-Library.Multiset" "HOL-Library.AList"
begin

section \<open>Values, columns and tables\<close>

text \<open>
  The program is a pipeline over pandas data frames: \<^verbatim>\<open>src/cleaner.py\<close> normalises three
  tables and \<^verbatim>\<open>src/analyzer.py\<close> computes rankings, a genre histogram and a popularity
  trend. A data frame is modelled as the list of its labelled columns, in column order;
  a column carries its dtype as its constructor, so that an \<open>int64\<close> column cannot hold
  a missing value while a \<open>float64\<close>, \<open>datetime64\<close> or \<open>object\<close> column can.

  Scope of the model. A float is a rational number or one of the two infinities, and
  \<open>NaN\<close> is the missing value of a float column (rounding is not modelled). An integer
  column holds \<open>int64\<close> values; a cast into it is written out with its range. Characters
  are the 256 code points of Latin-1. A Python list, held in a cell or read from a
  literal, holds strings, numbers and \<^verbatim>\<open>None\<close>. A timestamp is a calendar day. A table is
  read through the first column that carries a label (pandas' treatment of repeated
  labels is not modelled). A raised exception is a value \<open>Inl e\<close>.
\<close>

datatype py_error = KeyError string | ValueError | TypeError | SyntaxError | OverflowError | OtherError

datatype timestamp = Timestamp (ts_year: int) (ts_month: nat) (ts_day: nat)

datatype float64 = Fin rat | PInf | NInf

text \<open>The elements of a Python list.\<close>

datatype scalar = NoneS | IntS int | FloatS float64 | StrS string

text \<open>
  The values of a column as Python objects. The three missing values \<^verbatim>\<open>None\<close>,
  \<^verbatim>\<open>nan\<close> and \<^verbatim>\<open>NaT\<close> are \<open>Null\<close>, \<open>NaN\<close> and \<open>NaT\<close>: pandas fills and drops all
  three, and keeps them apart where it compares the values of an \<open>object\<close> column.
\<close>

datatype cell =
    Null
  | NaN
  | NaT
  | IntV int
  | FloatV float64
  | StrV string
  | ListV "scalar list"
  | DateV timestamp

datatype column =
    IntCol "int list"
  | FloatCol "float64 option list"
  | DateCol "timestamp option list"
  | ObjCol "cell list"

type_synonym table = "(string \<times> column) list"

fun float_cell :: "float64 option \<Rightarrow> cell" where
  "float_cell None = NaN"
| "float_cell (Some x) = FloatV x"

fun date_cell :: "timestamp option \<Rightarrow> cell" where
  "date_cell None = NaT"
| "date_cell (Some d) = DateV d"

fun cells_of :: "column \<Rightarrow> cell list" where
  "cells_of (IntCol xs) = map IntV xs"
| "cells_of (FloatCol xs) = map float_cell xs"
| "cells_of (DateCol ds) = map date_cell ds"
| "cells_of (ObjCol cs) = cs"

text \<open>\<^verbatim>\<open>pd.isna\<close> on one value.\<close>

fun is_na :: "cell \<Rightarrow> bool" where
  "is_na Null = True"
| "is_na NaN = True"
| "is_na NaT = True"
| "is_na v = False"

subsection \<open>Library behaviour taken as a parameter\<close>

text \<open>
  What pandas, numpy and the Python runtime compute inside the calls the program makes,
  where the result is fixed by the library and not by the program:
  \<^item> \<open>argsort\<close>: numpy's \<^verbatim>\<open>argsort(kind='quicksort')\<close> on integer keys, the default of
    \<^verbatim>\<open>sort_values\<close>; it returns a permutation of the positions that sorts the keys
    ascending and promises nothing about the order of equal keys;
  \<^item> \<open>int_of_str\<close>: Python's \<^verbatim>\<open>int(s)\<close>, \<open>None\<close> when it raises \<^verbatim>\<open>ValueError\<close>;
  \<^item> \<open>num_of_str\<close>: the number \<^verbatim>\<open>pd.to_numeric\<close> reads from a string, \<open>None\<close> when there
    is none;
  \<^item> \<open>str_of\<close>: Python's \<^verbatim>\<open>str(x)\<close> of a value that is not a string;
  \<^item> \<open>literal_eval\<close>: \<^verbatim>\<open>ast.literal_eval\<close>; \<open>Inl e\<close> when it raises \<open>e\<close>,
    \<open>Inr (Some l)\<close> when the literal is the list \<open>l\<close>, \<open>Inr None\<close> for any other literal;
  \<^item> \<open>parse_datetime\<close>: what \<^verbatim>\<open>pd.to_datetime(errors='coerce')\<close> makes of one value of
    a column (the column is passed too, since pandas infers one format per column);
  \<^item> \<open>to_offset\<close>: the calendar period a frequency code stands for, as the function that
    numbers the periods consecutively; \<open>None\<close> when pandas rejects the code;
  \<^item> \<open>num_of_date\<close>: what \<^verbatim>\<open>pd.to_numeric\<close> makes of one value of a \<open>datetime64\<close>
    column, \<open>NaT\<close> included;
  \<^item> \<open>num_of_object\<close>: what \<^verbatim>\<open>pd.to_numeric(errors='coerce')\<close> makes of a timestamp held
    in an \<open>object\<close> column;
  \<^item> \<open>date_ns\<close>: the integer \<^verbatim>\<open>astype(int)\<close> gives a value of a \<open>datetime64\<close> column;
  \<^item> \<open>int_of_object\<close>: the outcome of \<^verbatim>\<open>astype(int)\<close> on a value of an \<open>object\<close> column
    that is neither a string, a list, a missing value nor a number within the \<open>int64\<close>
    range (a timestamp, an infinity, a number out of range): an exception or an integer.
\<close>

record pylib =
  argsort :: "int list \<Rightarrow> nat list"
  int_of_str :: "string \<Rightarrow> int option"
  num_of_str :: "string \<Rightarrow> float64 option"
  str_of :: "cell \<Rightarrow> string"
  literal_eval :: "string \<Rightarrow> py_error + scalar list option"
  parse_datetime :: "cell list \<Rightarrow> cell \<Rightarrow> timestamp option"
  to_offset :: "string \<Rightarrow> (timestamp \<Rightarrow> int) option"
  num_of_date :: "timestamp option \<Rightarrow> float64 option"
  num_of_object :: "cell \<Rightarrow> float64 option"
  date_ns :: "timestamp \<Rightarrow> int"
  int_of_object :: "cell \<Rightarrow> py_error + int"

text \<open>The contract of \<open>argsort\<close>: a permutation of the positions, keys ascending.\<close>

definition argsort_ok :: "(int list \<Rightarrow> nat list) \<Rightarrow> bool" where
  "argsort_ok A =
     (\<forall>ks. mset (A ks) = mset [0..<length ks] \<and> sorted (map (nth ks) (A ks)))"

subsection \<open>Errors\<close>

definition rbind :: "'e + 'a \<Rightarrow> ('a \<Rightarrow> 'e + 'b) \<Rightarrow> 'e + 'b" where
  "rbind r f = (case r of Inl e \<Rightarrow> Inl e | Inr x \<Rightarrow> f x)"

fun sequence :: "('e + 'a) list \<Rightarrow> 'e + 'a list" where
  "sequence [] = Inr []"
| "sequence (r # rs) =
     (case r of
        Inl e \<Rightarrow> Inl e
      | Inr x \<Rightarrow> (case sequence rs of Inl e \<Rightarrow> Inl e | Inr xs \<Rightarrow> Inr (x # xs)))"

subsection \<open>Strings\<close>

text \<open>
  \<^verbatim>\<open>str.lower\<close> on one character: the letters \<^verbatim>\<open>A\<close> to \<^verbatim>\<open>Z\<close> and the Latin-1 capitals
  \<^verbatim>\<open>0xC0\<close> to \<^verbatim>\<open>0xDE\<close> (the multiplication sign \<^verbatim>\<open>0xD7\<close> is no letter) move up by 32.
\<close>

definition lower_char :: "char \<Rightarrow> char" where
  "lower_char c =
     (let n = (of_char c :: nat)
      in if (65 \<le> n \<and> n \<le> 90) \<or> (192 \<le> n \<and> n \<le> 222 \<and> n \<noteq> 215) then char_of (n + 32) else c)"

text \<open>
  \<^verbatim>\<open>str.upper\<close> on one character: the letters \<^verbatim>\<open>a\<close> to \<^verbatim>\<open>z\<close> and the Latin-1 small
  letters \<^verbatim>\<open>0xE0\<close> to \<^verbatim>\<open>0xFE\<close> (the division sign \<^verbatim>\<open>0xF7\<close> is no letter) move down by
  32. The three letters \<^verbatim>\<open>0xB5\<close>, \<^verbatim>\<open>0xDF\<close> and \<^verbatim>\<open>0xFF\<close>, whose capitals lie outside Latin-1
  or are two letters, are left as they are. The function is used for one test, whether
  the frequency code upper-cases to \<^verbatim>\<open>Y\<close>; no character but \<^verbatim>\<open>y\<close> and \<^verbatim>\<open>Y\<close> does.
\<close>

definition upper_char :: "char \<Rightarrow> char" where
  "upper_char c =
     (let n = (of_char c :: nat)
      in if (97 \<le> n \<and> n \<le> 122) \<or> (224 \<le> n \<and> n \<le> 254 \<and> n \<noteq> 247) then char_of (n - 32) else c)"

definition py_lower :: "string \<Rightarrow> string" where
  "py_lower s = map lower_char s"

definition py_upper :: "string \<Rightarrow> string" where
  "py_upper s = map upper_char s"

text \<open>
  \<^verbatim>\<open>str.isspace\<close> on one character: space, \<^verbatim>\<open>\t \n \v \f \r\<close>, \<^verbatim>\<open>\x1c..\x1f\<close>, the
  next-line control \<^verbatim>\<open>\x85\<close> and the no-break space \<^verbatim>\<open>\xa0\<close>.
\<close>

definition is_space :: "char \<Rightarrow> bool" where
  "is_space c =
     (let n = (of_char c :: nat)
      in n = 32 \<or> (9 \<le> n \<and> n \<le> 13) \<or> (28 \<le> n \<and> n \<le> 31) \<or> n = 133 \<or> n = 160)"

definition py_strip :: "string \<Rightarrow> string" where
  "py_strip s = rev (dropWhile is_space (rev (dropWhile is_space s)))"

text \<open>\<^verbatim>\<open>s.split(sep)\<close> for a one-character separator: never empty.\<close>

fun split_on :: "char \<Rightarrow> string \<Rightarrow> string list" where
  "split_on sep [] = [[]]"
| "split_on sep (c # cs) =
     (if c = sep then [] # split_on sep cs
      else (case split_on sep cs of [] \<Rightarrow> [[c]] | w # ws \<Rightarrow> (c # w) # ws))"

subsection \<open>Data frame primitives\<close>

text \<open>The values of a column that are not missing.\<close>

definition present :: "'a option list \<Rightarrow> 'a list" where
  "present xs = concat (map (\<lambda>x. case x of None \<Rightarrow> [] | Some v \<Rightarrow> [v]) xs)"

text \<open>\<^verbatim>\<open>df[name]\<close>: a missing label raises \<^verbatim>\<open>KeyError\<close>.\<close>

definition get_col :: "table \<Rightarrow> string \<Rightarrow> py_error + column" where
  "get_col df name = (case map_of df name of None \<Rightarrow> Inl (KeyError name) | Some c \<Rightarrow> Inr c)"

text \<open>Boolean indexing \<^verbatim>\<open>df[mask]\<close>, positional indexing and \<^verbatim>\<open>head(n)\<close> (\<^verbatim>\<open>iloc[:n]\<close>).\<close>

definition filter_mask :: "bool list \<Rightarrow> 'a list \<Rightarrow> 'a list" where
  "filter_mask m xs = map snd (filter fst (zip m xs))"

definition py_head :: "int \<Rightarrow> 'a list \<Rightarrow> 'a list" where
  "py_head n xs = (if 0 \<le> n then take (nat n) xs else take (length xs - nat (- n)) xs)"

fun col_mask :: "bool list \<Rightarrow> column \<Rightarrow> column" where
  "col_mask m (IntCol xs) = IntCol (filter_mask m xs)"
| "col_mask m (FloatCol xs) = FloatCol (filter_mask m xs)"
| "col_mask m (DateCol xs) = DateCol (filter_mask m xs)"
| "col_mask m (ObjCol xs) = ObjCol (filter_mask m xs)"

fun col_take :: "nat list \<Rightarrow> column \<Rightarrow> column" where
  "col_take idx (IntCol xs) = IntCol (map (nth xs) idx)"
| "col_take idx (FloatCol xs) = FloatCol (map (nth xs) idx)"
| "col_take idx (DateCol xs) = DateCol (map (nth xs) idx)"
| "col_take idx (ObjCol xs) = ObjCol (map (nth xs) idx)"

fun col_head :: "int \<Rightarrow> column \<Rightarrow> column" where
  "col_head n (IntCol xs) = IntCol (py_head n xs)"
| "col_head n (FloatCol xs) = FloatCol (py_head n xs)"
| "col_head n (DateCol xs) = DateCol (py_head n xs)"
| "col_head n (ObjCol xs) = ObjCol (py_head n xs)"

definition select_mask :: "bool list \<Rightarrow> table \<Rightarrow> table" where
  "select_mask m df = map (apsnd (col_mask m)) df"

definition take_rows :: "nat list \<Rightarrow> table \<Rightarrow> table" where
  "take_rows idx df = map (apsnd (col_take idx)) df"

definition head :: "int \<Rightarrow> table \<Rightarrow> table" where
  "head n df = map (apsnd (col_head n)) df"

definition columns :: "table \<Rightarrow> string list" where
  "columns df = map fst df"

text \<open>\<^verbatim>\<open>df.columns.str.lower().str.replace(" ", "_")\<close>\<close>

definition norm_label :: "string \<Rightarrow> string" where
  "norm_label s = map (\<lambda>c. if c = CHR '' '' then CHR ''_'' else c) (py_lower s)"

definition rename_columns :: "table \<Rightarrow> table" where
  "rename_columns df = map (apfst norm_label) df"

subsection \<open>Numeric coercion\<close>

text \<open>
  \<^verbatim>\<open>pd.to_numeric(col, errors='coerce')\<close>: the values as floats, \<open>None\<close> for \<open>NaN\<close>. A
  numeric column is returned as it is; in an \<open>object\<close> column a number stays, a string
  is parsed, and a value that is no number becomes \<open>NaN\<close>.
\<close>

fun obj_to_num :: "'a pylib_scheme \<Rightarrow> cell \<Rightarrow> float64 option" where
  "obj_to_num L (IntV i) = Some (Fin (of_int i))"
| "obj_to_num L (FloatV x) = Some x"
| "obj_to_num L (StrV s) = num_of_str L s"
| "obj_to_num L (DateV d) = num_of_object L (DateV d)"
| "obj_to_num L v = None"

fun to_numeric :: "'a pylib_scheme \<Rightarrow> column \<Rightarrow> float64 option list" where
  "to_numeric L (IntCol xs) = map (\<lambda>i. Some (Fin (of_int i))) xs"
| "to_numeric L (FloatCol xs) = xs"
| "to_numeric L (DateCol ds) = map (num_of_date L) ds"
| "to_numeric L (ObjCol cs) = map (obj_to_num L) cs"

text \<open>A number cast to an integer is truncated toward zero.\<close>

definition trunc :: "rat \<Rightarrow> int" where
  "trunc r = (if 0 \<le> r then \<lfloor>r\<rfloor> else \<lceil>r\<rceil>)"

definition int64_min :: int where
  "int64_min = - (2 ^ 63)"

definition in_int64 :: "int \<Rightarrow> bool" where
  "in_int64 i = (- (2 ^ 63) \<le> i \<and> i < 2 ^ 63)"

text \<open>
  \<^verbatim>\<open>.fillna(0).astype(int)\<close> on one value of a \<open>float64\<close> column: \<open>NaN\<close> is filled with
  0; pandas refuses an infinity with \<^verbatim>\<open>IntCastingNaNError\<close>, a \<^verbatim>\<open>ValueError\<close>; numpy then
  truncates, and a number outside the \<open>int64\<close> range comes out as the least \<open>int64\<close>
  (the conversion instruction of x86-64).
\<close>

fun float_astype_int :: "float64 option \<Rightarrow> py_error + int" where
  "float_astype_int None = Inr 0"
| "float_astype_int (Some (Fin r)) = Inr (if in_int64 (trunc r) then trunc r else int64_min)"
| "float_astype_int (Some PInf) = Inl ValueError"
| "float_astype_int (Some NInf) = Inl ValueError"

definition floats_astype_int :: "float64 option list \<Rightarrow> py_error + int list" where
  "floats_astype_int xs = sequence (map float_astype_int xs)"

text \<open>
  \<^verbatim>\<open>.fillna(0).astype(int)\<close> on one value of an \<open>object\<close> column: a missing value is
  filled with 0, and every value goes through \<^verbatim>\<open>int(x)\<close>, which truncates a number,
  raises \<^verbatim>\<open>ValueError\<close> on text that is no integer literal and \<^verbatim>\<open>TypeError\<close> on a list;
  an integer read from text that does not fit \<open>int64\<close> raises \<^verbatim>\<open>OverflowError\<close>.
\<close>

fun obj_astype_int :: "'a pylib_scheme \<Rightarrow> cell \<Rightarrow> py_error + int" where
  "obj_astype_int L (IntV i) = (if in_int64 i then Inr i else int_of_object L (IntV i))"
| "obj_astype_int L (FloatV (Fin r)) =
     (if in_int64 (trunc r) then Inr (trunc r) else int_of_object L (FloatV (Fin r)))"
| "obj_astype_int L (FloatV PInf) = int_of_object L (FloatV PInf)"
| "obj_astype_int L (FloatV NInf) = int_of_object L (FloatV NInf)"
| "obj_astype_int L (StrV s) =
     (case int_of_str L s of
        None \<Rightarrow> Inl ValueError
      | Some i \<Rightarrow> if in_int64 i then Inr i else Inl OverflowError)"
| "obj_astype_int L (ListV l) = Inl TypeError"
| "obj_astype_int L (DateV d) = int_of_object L (DateV d)"
| "obj_astype_int L v = Inr 0"

text \<open>
  \<^verbatim>\<open>col.fillna(0).astype(int)\<close> on a column as it is (no \<^verbatim>\<open>to_numeric\<close> first), by
  dtype. An \<open>int64\<close> column is unchanged. A \<open>datetime64\<close> column without a missing value
  is cast as such; with one, \<^verbatim>\<open>fillna(0)\<close> makes it an \<open>object\<close> column.
\<close>

fun fillna0_astype_int :: "'a pylib_scheme \<Rightarrow> column \<Rightarrow> py_error + int list" where
  "fillna0_astype_int L (IntCol xs) = Inr xs"
| "fillna0_astype_int L (FloatCol xs) = floats_astype_int xs"
| "fillna0_astype_int L (DateCol ds) =
     (if None \<in> set ds then sequence (map (obj_astype_int L) (map date_cell ds))
      else Inr (map (date_ns L) (present ds)))"
| "fillna0_astype_int L (ObjCol cs) = sequence (map (obj_astype_int L) cs)"

subsection \<open>Sorting\<close>

text \<open>
  pandas' \<^verbatim>\<open>nargsort(keys, kind, ascending=False)\<close>: the keys and their positions are
  reversed, sorted ascending by \<open>argsort\<close>, and the result is reversed.
\<close>

definition nargsort_desc :: "'a pylib_scheme \<Rightarrow> int list \<Rightarrow> nat list" where
  "nargsort_desc L ks =
     (let n = length ks in rev (map (\<lambda>j. n - 1 - j) (argsort L (rev ks))))"

text \<open>
  \<^verbatim>\<open>df.sort_values(by, ascending=False)\<close>. Both callers have just cast the key column
  to integers, so only an integer key column is given a meaning.
\<close>

definition sort_values_desc :: "'a pylib_scheme \<Rightarrow> string \<Rightarrow> table \<Rightarrow> table" where
  "sort_values_desc L by df =
     (case map_of df by of
        Some (IntCol ks) \<Rightarrow> take_rows (nargsort_desc L ks) df
      | _ \<Rightarrow> df)"

section \<open>The analyzer (\<^verbatim>\<open>src/analyzer.py\<close>)\<close>

definition get_top_popular_tracks ::
    "'a pylib_scheme \<Rightarrow> table \<Rightarrow> int option \<Rightarrow> int \<Rightarrow> py_error + table" where
  "get_top_popular_tracks L tracks threshold top_n =
     (case map_of tracks ''popularity'' of
        None \<Rightarrow> Inr (head 0 tracks)
      | Some p \<Rightarrow>
          rbind (floats_astype_int (to_numeric L p)) (\<lambda>pop.
          let df = AList.update ''popularity'' (IntCol pop) tracks;
              filtered =
                (case threshold of
                   Some th \<Rightarrow> select_mask (map (\<lambda>x. th < x) pop) df
                 | None \<Rightarrow> df)
          in Inr (head top_n (sort_values_desc L ''popularity'' filtered))))"

definition top_artists_by_followers ::
    "'a pylib_scheme \<Rightarrow> table \<Rightarrow> int \<Rightarrow> py_error + table" where
  "top_artists_by_followers L artists top_n =
     (case map_of artists ''followers'' of
        None \<Rightarrow> Inr (head 0 artists)
      | Some f \<Rightarrow>
          rbind (floats_astype_int (to_numeric L f)) (\<lambda>followers.
          let df = AList.update ''followers'' (IntCol followers) artists
          in Inr (head top_n (sort_values_desc L ''followers'' df))))"

text \<open>The genre tokens of one non-null value of the \<open>genres\<close> column (the loop body).\<close>

definition split_genres :: "string \<Rightarrow> string list" where
  "split_genres s = map py_strip (split_on CHR '','' s)"

fun genre_tokens :: "'a pylib_scheme \<Rightarrow> cell \<Rightarrow> py_error + scalar list" where
  "genre_tokens L (ListV l) = Inr l"
| "genre_tokens L (StrV s) =
     (case literal_eval L s of
        Inr (Some parsed) \<Rightarrow> Inr parsed
      | Inr None \<Rightarrow> Inr (map StrS (split_genres s))
      | Inl ValueError \<Rightarrow> Inr (map StrS (split_genres s))
      | Inl SyntaxError \<Rightarrow> Inr (map StrS (split_genres s))
      | Inl e \<Rightarrow> Inl e)"
| "genre_tokens L v = Inr []"

text \<open>The \<^verbatim>\<open>for\<close> loop over \<^verbatim>\<open>artists["genres"].dropna()\<close>, extending \<open>all_genres\<close>.\<close>

fun collect_genres ::
    "'a pylib_scheme \<Rightarrow> scalar list \<Rightarrow> cell list \<Rightarrow> py_error + scalar list" where
  "collect_genres L all_genres [] = Inr all_genres"
| "collect_genres L all_genres (v # vs) =
     (case genre_tokens L v of
        Inl e \<Rightarrow> Inl e
      | Inr ts \<Rightarrow> collect_genres L (all_genres @ ts) vs)"

definition dropna :: "cell list \<Rightarrow> cell list" where
  "dropna cs = filter (\<lambda>c. \<not> is_na c) cs"

text \<open>
  A row is a first occurrence when its key has not occurred above it; this is how
  pandas' hash tables number the values of \<^verbatim>\<open>value_counts\<close> and of \<^verbatim>\<open>duplicated\<close>.
\<close>

fun keep_first :: "'a list \<Rightarrow> 'a list \<Rightarrow> bool list" where
  "keep_first seen [] = []"
| "keep_first seen (k # ks) = (k \<notin> set seen) # keep_first (k # seen) ks"

text \<open>Values are compared as Python objects: \<open>1 == 1.0\<close>.\<close>

fun scalar_key :: "scalar \<Rightarrow> scalar" where
  "scalar_key (IntS i) = FloatS (Fin (of_int i))"
| "scalar_key v = v"

fun is_str :: "scalar \<Rightarrow> bool" where
  "is_str (StrS s) = True"
| "is_str v = False"

fun is_int :: "scalar \<Rightarrow> bool" where
  "is_int (IntS i) = True"
| "is_int v = False"

text \<open>
  \<^verbatim>\<open>pd.Series(xs)\<close> as \<^verbatim>\<open>value_counts\<close> reads it, the \<^verbatim>\<open>None\<close> dropped: with a string
  among the values the series is an \<open>object\<close> column, with integers only an \<open>int64\<close>
  column, and otherwise a \<open>float64\<close> column whose integers have become floats.
\<close>

definition series_values :: "scalar list \<Rightarrow> scalar list" where
  "series_values xs =
     (let vs = filter (\<lambda>x. x \<noteq> NoneS) xs
      in if list_ex is_str xs \<or> list_all is_int xs then vs else map scalar_key vs)"

text \<open>
  \<^verbatim>\<open>pd.Series(xs).value_counts()\<close>: the distinct values in first-seen order with their
  counts, then sorted descending by count with the default sort.
\<close>

definition value_counts :: "'a pylib_scheme \<Rightarrow> scalar list \<Rightarrow> (scalar \<times> nat) list" where
  "value_counts L xs =
     (let vs = series_values xs;
          firsts = filter_mask (keep_first [] (map scalar_key vs)) vs;
          counted = map (\<lambda>k. (k, length (filter (\<lambda>v. scalar_key v = scalar_key k) vs))) firsts
      in map (nth counted) (nargsort_desc L (map (\<lambda>kc. int (snd kc)) counted)))"

definition genre_distribution ::
    "'a pylib_scheme \<Rightarrow> table \<Rightarrow> py_error + (scalar \<times> nat) list" where
  "genre_distribution L artists =
     (case map_of artists ''genres'' of
        None \<Rightarrow> Inr []
      | Some g \<Rightarrow>
          rbind (collect_genres L [] (dropna (cells_of g))) (\<lambda>all_genres.
          Inr (value_counts L all_genres)))"

subsection \<open>The popularity trend\<close>

text \<open>\<^verbatim>\<open>pd.to_datetime(col, errors='coerce')\<close>: a timestamp stays, a missing value is \<open>NaT\<close>.\<close>

fun cell_to_datetime :: "'a pylib_scheme \<Rightarrow> cell list \<Rightarrow> cell \<Rightarrow> timestamp option" where
  "cell_to_datetime L col Null = None"
| "cell_to_datetime L col NaN = None"
| "cell_to_datetime L col NaT = None"
| "cell_to_datetime L col (DateV d) = Some d"
| "cell_to_datetime L col v = parse_datetime L col v"

definition to_datetime :: "'a pylib_scheme \<Rightarrow> column \<Rightarrow> timestamp option list" where
  "to_datetime L c = map (cell_to_datetime L (cells_of c)) (cells_of c)"

text \<open>The numbers a column offers to \<^verbatim>\<open>mean\<close>; only numeric dtypes have a mean.\<close>

fun numeric_values :: "column \<Rightarrow> py_error + float64 option list" where
  "numeric_values (IntCol xs) = Inr (map (\<lambda>i. Some (Fin (of_int i))) xs)"
| "numeric_values (FloatCol xs) = Inr xs"
| "numeric_values (DateCol xs) = Inl TypeError"
| "numeric_values (ObjCol xs) = Inl TypeError"

text \<open>
  Float arithmetic with the infinities: a sum that holds both infinities is \<open>NaN\<close>
  (\<open>None\<close>), a sum that holds one is that infinity.
\<close>

definition finite_parts :: "float64 list \<Rightarrow> rat list" where
  "finite_parts xs = concat (map (\<lambda>x. case x of Fin r \<Rightarrow> [r] | _ \<Rightarrow> []) xs)"

definition fsum :: "float64 list \<Rightarrow> float64 option" where
  "fsum xs =
     (if PInf \<in> set xs then (if NInf \<in> set xs then None else Some PInf)
      else if NInf \<in> set xs then Some NInf
      else Some (Fin (sum_list (finite_parts xs))))"

fun fdiv :: "float64 \<Rightarrow> rat \<Rightarrow> float64" where
  "fdiv (Fin r) n = Fin (r / n)"
| "fdiv PInf n = PInf"
| "fdiv NInf n = NInf"

text \<open>A mean that skips \<open>NaN\<close>; the mean of no value is \<open>NaN\<close>.\<close>

definition mean_skipna :: "float64 option list \<Rightarrow> float64 option" where
  "mean_skipna vs =
     (let xs = present vs
      in if xs = [] then None else map_option (\<lambda>s. fdiv s (of_nat (length xs))) (fsum xs))"

text \<open>
  \<^verbatim>\<open>series.resample(freq).mean()\<close> on a series indexed by timestamps: one bin for every
  period from the earliest to the latest timestamp, each with the mean of its rows.
\<close>

definition bucket_range :: "int list \<Rightarrow> int list" where
  "bucket_range ks = (case ks of [] \<Rightarrow> [] | k # r \<Rightarrow> [fold min r k..fold max r k])"

definition resample_mean ::
    "'a pylib_scheme \<Rightarrow> string \<Rightarrow> timestamp list \<Rightarrow> float64 option list
       \<Rightarrow> py_error + (int \<times> float64 option) list" where
  "resample_mean L freq idx vals =
     (case to_offset L freq of
        None \<Rightarrow> Inl ValueError
      | Some period \<Rightarrow>
          (let rows = zip (map period idx) vals
           in Inr (map (\<lambda>k. (k, mean_skipna (map snd (filter (\<lambda>r. fst r = k) rows))))
                    (bucket_range (map fst rows)))))"

definition popularity_trend ::
    "'a pylib_scheme \<Rightarrow> table \<Rightarrow> string \<Rightarrow> py_error + (int \<times> float64 option) list" where
  "popularity_trend L tracks freq =
     (case map_of tracks ''release_date'' of
        None \<Rightarrow> Inr []
      | Some rd \<Rightarrow>
          (let dates = to_datetime L rd;
               keep = map (\<lambda>d. d \<noteq> None) dates;
               df = select_mask keep (AList.update ''release_date'' (DateCol dates) tracks);
               df1 =
                 (case map_of df ''popularity'' of
                    None \<Rightarrow> df
                  | Some p \<Rightarrow> AList.update ''popularity'' (FloatCol (to_numeric L p)) df);
               freq1 = (if py_upper freq = ''Y'' then ''YE'' else freq);
               idx = present (filter_mask keep dates)
           in rbind (get_col df1 ''popularity'') (\<lambda>p.
              rbind (numeric_values p) (\<lambda>vals.
              resample_mean L freq1 idx vals))))"

section \<open>The cleaner (\<^verbatim>\<open>src/cleaner.py\<close>)\<close>

text \<open>\<^verbatim>\<open>col.fillna(v)\<close> with a string: every missing value becomes the string.\<close>

definition fillna_str :: "string \<Rightarrow> column \<Rightarrow> column" where
  "fillna_str v c = ObjCol (map (\<lambda>x. if is_na x then StrV v else x) (cells_of c))"

text \<open>\<^verbatim>\<open>.astype(str)\<close> on one value: a string is itself.\<close>

fun py_str :: "'a pylib_scheme \<Rightarrow> cell \<Rightarrow> string" where
  "py_str L (StrV s) = s"
| "py_str L v = str_of L v"

text \<open>\<^verbatim>\<open>.str.replace(r"[\[\]']", "", regex=True)\<close>: brackets and single quotes go.\<close>

definition strip_brackets :: "string \<Rightarrow> string" where
  "strip_brackets s =
     filter (\<lambda>c. c \<noteq> CHR ''['' \<and> c \<noteq> CHR '']'' \<and> c \<noteq> CHR 0x27) s"

definition clean_genres_str :: "string \<Rightarrow> string" where
  "clean_genres_str s = py_lower (py_strip (strip_brackets s))"

definition clean_genres_cell :: "'a pylib_scheme \<Rightarrow> cell \<Rightarrow> cell" where
  "clean_genres_cell L v = StrV (clean_genres_str (py_str L v))"

text \<open>
  \<^verbatim>\<open>df.drop_duplicates(subset=[key], inplace=True)\<close>: a row is kept when its key has not
  occurred above it. The keys of an \<open>object\<close> column are compared as Python objects:
  \<open>1 == 1.0\<close>, two lists are equal when their elements are, and \<^verbatim>\<open>None\<close>, \<^verbatim>\<open>nan\<close> and
  \<^verbatim>\<open>NaT\<close> are three keys.
\<close>

fun dup_key :: "cell \<Rightarrow> cell" where
  "dup_key (IntV i) = FloatV (Fin (of_int i))"
| "dup_key (ListV l) = ListV (map scalar_key l)"
| "dup_key v = v"

definition dedup_mask :: "column \<Rightarrow> bool list" where
  "dedup_mask c = keep_first [] (map dup_key (cells_of c))"

definition drop_duplicates :: "string \<Rightarrow> table \<Rightarrow> py_error + table" where
  "drop_duplicates key df =
     rbind (get_col df key) (\<lambda>c. Inr (select_mask (dedup_mask c) df))"

text \<open>
  The median of a float column, skipping \<open>NaN\<close>: the middle one of the sorted values, or
  the mean of the two middle ones. It is \<open>NaN\<close> when every value is missing, and when the
  two middle values are the two infinities.
\<close>

definition sort_floats :: "float64 list \<Rightarrow> float64 list" where
  "sort_floats xs =
     filter (\<lambda>x. x = NInf) xs @ map Fin (sort (finite_parts xs)) @ filter (\<lambda>x. x = PInf) xs"

definition col_median :: "float64 option list \<Rightarrow> float64 option" where
  "col_median xs =
     (let vs = sort_floats (present xs); n = length vs
      in if n = 0 then None
         else if odd n then Some (vs ! (n div 2))
         else map_option (\<lambda>s. fdiv s 2) (fsum [vs ! (n div 2 - 1), vs ! (n div 2)]))"

text \<open>\<^verbatim>\<open>col.fillna(v)\<close> on a float column; \<^verbatim>\<open>fillna(nan)\<close> fills nothing.\<close>

definition fill_missing :: "'a option \<Rightarrow> 'a option list \<Rightarrow> 'a option list" where
  "fill_missing v xs = map (\<lambda>x. case x of None \<Rightarrow> v | Some y \<Rightarrow> Some y) xs"

text \<open>
  \<^verbatim>\<open>df[numeric_cols] = df[numeric_cols].fillna(df[numeric_cols].median())\<close> on one column:
  \<^verbatim>\<open>select_dtypes(include=['number'])\<close> takes the integer and the float columns, and only
  a float column can hold a missing value.
\<close>

fun fillna_median :: "column \<Rightarrow> column" where
  "fillna_median (FloatCol xs) = FloatCol (fill_missing (col_median xs) xs)"
| "fillna_median (IntCol xs) = IntCol xs"
| "fillna_median (DateCol xs) = DateCol xs"
| "fillna_median (ObjCol xs) = ObjCol xs"

definition clean_artists :: "'a pylib_scheme \<Rightarrow> table \<Rightarrow> py_error + table" where
  "clean_artists L artists =
     (let df = rename_columns artists in
      rbind (get_col df ''genres'') (\<lambda>g.
      let df1 = AList.update ''genres'' (fillna_str ''Unknown'' g) df in
      rbind (get_col df1 ''followers'') (\<lambda>f.
      rbind (fillna0_astype_int L f) (\<lambda>followers.
      let df2 = AList.update ''followers'' (IntCol followers) df1 in
      rbind (get_col df2 ''popularity'') (\<lambda>p.
      rbind (fillna0_astype_int L p) (\<lambda>popularity.
      let df3 = AList.update ''popularity'' (IntCol popularity) df2 in
      rbind (get_col df3 ''genres'') (\<lambda>g1.
      let df4 = AList.update ''genres'' (ObjCol (map (clean_genres_cell L) (cells_of g1))) df3 in
      drop_duplicates ''id'' df4)))))))"

definition clean_tracks :: "'a pylib_scheme \<Rightarrow> table \<Rightarrow> py_error + table" where
  "clean_tracks L tracks =
     (let df = rename_columns tracks in
      rbind (get_col df ''release_date'') (\<lambda>rd.
      let df1 = AList.update ''release_date'' (DateCol (to_datetime L rd)) df;
          df2 = map (apsnd fillna_median) df1
      in drop_duplicates ''id'' df2))"

definition clean_features :: "table \<Rightarrow> py_error + table" where
  "clean_features features =
     (let df = rename_columns features;
          df1 = map (apsnd fillna_median) df
      in drop_duplicates ''track_id'' df1)"

section \<open>A library instance for the examples\<close>

text \<open>
  The examples below run the model on concrete tables. They use this instance of the
  library: a stable sort, decimal integer literals, ISO dates \<^verbatim>\<open>YYYY-MM-DD\<close>, literal
  lists of plainly quoted strings, integers and \<^verbatim>\<open>None\<close>, and the frequency codes \<^verbatim>\<open>YE\<close>
  (calendar year) and \<^verbatim>\<open>ME\<close> (calendar month). It agrees with Python and pandas on the
  inputs of the examples and is no model of the library beyond them.
\<close>

definition stable_argsort :: "int list \<Rightarrow> nat list" where
  "stable_argsort ks = map snd (sort_key fst (zip ks [0..<length ks]))"

definition digit_val :: "char \<Rightarrow> nat option" where
  "digit_val c =
     (let n = (of_char c :: nat) in if 48 \<le> n \<and> n \<le> 57 then Some (n - 48) else None)"

fun parse_digits :: "nat \<Rightarrow> string \<Rightarrow> nat option" where
  "parse_digits acc [] = Some acc"
| "parse_digits acc (c # cs) =
     (case digit_val c of None \<Rightarrow> None | Some d \<Rightarrow> parse_digits (10 * acc + d) cs)"

definition parse_nat :: "string \<Rightarrow> nat option" where
  "parse_nat s = (if s = [] then None else parse_digits 0 s)"

definition parse_int :: "string \<Rightarrow> int option" where
  "parse_int s =
     (case py_strip s of
        [] \<Rightarrow> None
      | c # r \<Rightarrow>
          if c = CHR ''-'' then map_option (\<lambda>n. - int n) (parse_nat r)
          else if c = CHR ''+'' then map_option int (parse_nat r)
          else map_option int (parse_nat (c # r)))"

definition parse_iso_date :: "string \<Rightarrow> timestamp option" where
  "parse_iso_date s =
     (case split_on CHR ''-'' s of
        [y, m, d] \<Rightarrow>
          (case (parse_nat y, parse_nat m, parse_nat d) of
             (Some yy, Some mm, Some dd) \<Rightarrow>
               if length y = 4 \<and> length m = 2 \<and> length d = 2
                  \<and> 1 \<le> mm \<and> mm \<le> 12 \<and> 1 \<le> dd \<and> dd \<le> 31
               then Some (Timestamp (int yy) mm dd) else None
           | _ \<Rightarrow> None)
      | _ \<Rightarrow> None)"

definition unquote :: "string \<Rightarrow> string option" where
  "unquote s =
     (case s of
        [] \<Rightarrow> None
      | q # r \<Rightarrow>
          if (q = CHR 0x27 \<or> q = CHR 0x22) \<and> r \<noteq> [] \<and> last r = q
             \<and> q \<notin> set (butlast r) \<and> CHR 0x5C \<notin> set (butlast r)
          then Some (butlast r) else None)"

text \<open>One element of a literal list: a quoted string, \<^verbatim>\<open>None\<close> or a decimal integer.\<close>

definition parse_scalar :: "string \<Rightarrow> scalar option" where
  "parse_scalar s =
     (case unquote s of
        Some t \<Rightarrow> Some (StrS t)
      | None \<Rightarrow>
          if s = ''None'' then Some NoneS
          else if list_ex is_space s then None
          else map_option IntS (parse_int s))"

text \<open>
  \<^verbatim>\<open>ast.literal_eval\<close> on the strings of the examples. The two displays named first hold
  an unhashable element in a set or as a dictionary key, for which Python raises
  \<^verbatim>\<open>TypeError\<close>; a bare word raises \<^verbatim>\<open>ValueError\<close>.
\<close>

definition example_literal_eval :: "string \<Rightarrow> py_error + scalar list option" where
  "example_literal_eval s =
     (if s = ''{{}}'' \<or> s = ''{[1]: 2}'' then Inl TypeError
      else
        (case py_strip s of
           [] \<Rightarrow> Inl SyntaxError
         | c # r \<Rightarrow>
             if c = CHR ''['' \<and> r \<noteq> [] \<and> last r = CHR '']'' then
               (if py_strip (butlast r) = [] then Inr (Some [])
                else (case those (map (\<lambda>t. parse_scalar (py_strip t)) (split_on CHR '','' (butlast r))) of
                        None \<Rightarrow> Inl ValueError
                      | Some l \<Rightarrow> Inr (Some l)))
             else Inl ValueError))"

fun join :: "string \<Rightarrow> string list \<Rightarrow> string" where
  "join sep [] = []"
| "join sep [x] = x"
| "join sep (x # y # r) = x @ sep @ join sep (y # r)"

fun scalar_repr :: "scalar \<Rightarrow> string" where
  "scalar_repr (StrS s) = [CHR 0x27] @ s @ [CHR 0x27]"
| "scalar_repr NoneS = ''None''"
| "scalar_repr v = []"

fun example_str :: "cell \<Rightarrow> string" where
  "example_str (ListV l) = ''['' @ join '', '' (map scalar_repr l) @ '']''"
| "example_str v = []"

definition example_offset :: "string \<Rightarrow> (timestamp \<Rightarrow> int) option" where
  "example_offset freq =
     (if freq = ''YE'' then Some ts_year
      else if freq = ''ME'' then Some (\<lambda>d. ts_year d * 12 + int (ts_month d) - 1)
      else None)"

definition example_parse_datetime :: "cell list \<Rightarrow> cell \<Rightarrow> timestamp option" where
  "example_parse_datetime col v = (case v of StrV s \<Rightarrow> parse_iso_date s | _ \<Rightarrow> None)"

fun example_int_of_object :: "cell \<Rightarrow> py_error + int" where
  "example_int_of_object (DateV d) = Inl TypeError"
| "example_int_of_object v = Inl OverflowError"

definition example_lib :: pylib where
  "example_lib =
     \<lparr> argsort = stable_argsort,
       int_of_str = parse_int,
       num_of_str = (\<lambda>s. map_option (\<lambda>i. Fin (of_int i)) (parse_int s)),
       str_of = example_str,
       literal_eval = example_literal_eval,
       parse_datetime = example_parse_datetime,
       to_offset = example_offset,
       num_of_date = (\<lambda>d. None),
       num_of_object = (\<lambda>v. None),
       date_ns = (\<lambda>d. 0),
       int_of_object = example_int_of_object \<rparr>"

section \<open>Notions used in the statements\<close>

text \<open>
  The rows of a trend as the specification words them: the rows that carry a release
  date, each as the number of its period and its popularity.
\<close>

definition dated_rows ::
    "(timestamp \<Rightarrow> int) \<Rightarrow> timestamp option list \<Rightarrow> float64 option list
       \<Rightarrow> (int \<times> float64 option) list" where
  "dated_rows period dates vals =
     concat (map (\<lambda>dv. case fst dv of None \<Rightarrow> [] | Some t \<Rightarrow> [(period t, snd dv)]) (zip dates vals))"




text \<open>
  The genre tokens of one value as the specification words them: a list as it is, a
  string that parses as a literal list as the parsed list, any other string split on
  commas with each token trimmed.
\<close>

definition genre_tokens_spec :: "'a pylib_scheme \<Rightarrow> cell \<Rightarrow> scalar list" where
  "genre_tokens_spec L v =
     (case v of
        ListV l \<Rightarrow> l
      | StrV s \<Rightarrow>
          (case literal_eval L s of Inr (Some parsed) \<Rightarrow> parsed | _ \<Rightarrow> map StrS (split_genres s))
      | _ \<Rightarrow> [])"

text \<open>
  The exceptions of \<^verbatim>\<open>ast.literal_eval\<close> that the loop catches, and the values on which
  \<^verbatim>\<open>literal_eval\<close> raises no other.
\<close>

fun caught :: "py_error \<Rightarrow> bool" where
  "caught ValueError = True"
| "caught SyntaxError = True"
| "caught e = False"

definition literal_ok :: "'a pylib_scheme \<Rightarrow> cell \<Rightarrow> bool" where
  "literal_ok L v =
     (case v of
        StrV s \<Rightarrow> (case literal_eval L s of Inl e \<Rightarrow> caught e | Inr r \<Rightarrow> True)
      | _ \<Rightarrow> True)"

text \<open>What \<open>norm_label\<close> does to one character.\<close>

definition norm_char :: "char \<Rightarrow> char" where
  "norm_char c = (if lower_char c = CHR '' '' then CHR ''_'' else lower_char c)"

text \<open>
  What \<open>clean_artists\<close> makes of one value of \<open>genres\<close> (fill, then format), and the
  frame it hands to \<^verbatim>\<open>drop_duplicates\<close>.
\<close>

definition cleaned_genres :: "'a pylib_scheme \<Rightarrow> cell \<Rightarrow> cell" where
  "cleaned_genres L v = clean_genres_cell L (if is_na v then StrV ''Unknown'' else v)"

definition artist_frame :: "'a pylib_scheme \<Rightarrow> column \<Rightarrow> int list \<Rightarrow> int list \<Rightarrow> table \<Rightarrow> table" where
  "artist_frame L g fs ps df =
     AList.update ''genres'' (ObjCol (map (cleaned_genres L) (cells_of g)))
       (AList.update ''popularity'' (IntCol ps)
         (AList.update ''followers'' (IntCol fs)
           (AList.update ''genres'' (fillna_str ''Unknown'' g) df)))"

text \<open>The frame \<open>clean_tracks\<close> hands to \<^verbatim>\<open>drop_duplicates\<close>.\<close>

definition track_frame :: "'a pylib_scheme \<Rightarrow> column \<Rightarrow> table \<Rightarrow> table" where
  "track_frame L rd df =
     map (apsnd fillna_median) (AList.update ''release_date'' (DateCol (to_datetime L rd)) df)"

text \<open>The dtypes \<^verbatim>\<open>select_dtypes(include=['number'])\<close> takes, and missing values in a column.\<close>

fun is_numeric :: "column \<Rightarrow> bool" where
  "is_numeric (IntCol xs) = True"
| "is_numeric (FloatCol xs) = True"
| "is_numeric (DateCol xs) = False"
| "is_numeric (ObjCol xs) = False"

definition no_missing :: "column \<Rightarrow> bool" where
  "no_missing c = (\<not> list_ex is_na (cells_of c))"



text \<open>
  A median in the sense of the order: at least half of the values are not above it, and
  at least half are not below it.
\<close>

definition halves :: "rat \<Rightarrow> rat list \<Rightarrow> bool" where
  "halves m vs =
     (length vs \<le> 2 * length (filter (\<lambda>v. v \<le> m) vs)
      \<and> length vs \<le> 2 * length (filter (\<lambda>v. m \<le> v) vs))"

section \<open>Example tables\<close>

definition trend_tracks :: table where
  "trend_tracks =
     [(''release_date'', ObjCol [StrV ''2020-01-05'', StrV ''2020-07-01'', StrV ''2021-03-03'']),
      (''popularity'', IntCol [50, 70, 90])]"

definition dated_only_tracks :: table where
  "dated_only_tracks =
     [(''id'', IntCol [1]), (''release_date'', DateCol [Some (Timestamp 2020 1 5)])]"

definition unnamed_artists :: table where
  "unnamed_artists =
     [(''id'', IntCol [1, 2]), (''name'', ObjCol [StrV ''Adele'', Null]),
      (''genres'', ObjCol [StrV ''pop'', StrV ''rock'']),
      (''followers'', IntCol [10, 20]), (''popularity'', IntCol [50, 60])]"




definition gap_tracks :: table where
  "gap_tracks =
     [(''release_date'', DateCol [Some (Timestamp 2020 1 5), Some (Timestamp 2022 3 3)]),
      (''popularity'', IntCol [50, 90])]"

definition genre_artists :: table where
  "genre_artists =
     [(''genres'', ObjCol [StrV ''['pop','rock']'', StrV ''pop, jazz'', ListV [StrS ''rock'']])]"

definition braces_artists :: table where
  "braces_artists =
     [(''genres'', ObjCol [StrV ''pop, jazz'', StrV ''{{}}''])]"

definition raw_artists :: table where
  "raw_artists =
     [(''ID'', IntCol [1, 2, 1]),
      (''Name'', ObjCol [StrV ''Adele'', Null, StrV ''Adele'']),
      (''Genres'', ObjCol [ListV [StrS ''Pop'', StrS ''Rock''], Null, StrV ''x'']),
      (''Followers'', FloatCol [Some (Fin (7 / 2)), None, Some (Fin 9)]),
      (''Popularity'', ObjCol [StrV ''12'', Null, IntV 3])]"

definition cleaned_artists :: table where
  "cleaned_artists =
     [(''id'', IntCol [1, 2]),
      (''name'', ObjCol [StrV ''Adele'', Null]),
      (''genres'', ObjCol [StrV ''pop, rock'', StrV ''unknown'']),
      (''followers'', IntCol [3, 0]),
      (''popularity'', IntCol [12, 0])]"

definition raw_tracks :: table where
  "raw_tracks =
     [(''id'', IntCol [1, 2, 3, 3]),
      (''Release Date'', ObjCol [StrV ''2020-01-05'', StrV ''soon'', Null, Null]),
      (''tempo'', FloatCol [None, None, None, None]),
      (''energy'', FloatCol [None, Some (Fin 1), Some (Fin 2), Some (Fin 5)])]"

definition cleaned_tracks :: table where
  "cleaned_tracks =
     [(''id'', IntCol [1, 2, 3]),
      (''release_date'', DateCol [Some (Timestamp 2020 1 5), None, None]),
      (''tempo'', FloatCol [None, None, None]),
      (''energy'', FloatCol [Some (Fin 2), Some (Fin 1), Some (Fin 2)])]"

definition raw_features :: table where
  "raw_features =
     [(''Track ID'', ObjCol [StrV ''a'', StrV ''b'', StrV ''a'']),
      (''danceability'', FloatCol [Some (Fin (1 / 2)), None, Some (Fin 1)]),
      (''key'', IntCol [5, 7, 5])]"

definition cleaned_features :: table where
  "cleaned_features =
     [(''track_id'', ObjCol [StrV ''a'', StrV ''b'']),
      (''danceability'', FloatCol [Some (Fin (1 / 2)), Some (Fin (3 / 4))]),
      (''key'', IntCol [5, 7])]"

definition silent_tracks :: table where
  "silent_tracks =
     [(''id'', IntCol [1, 2]),
      (''release_date'', ObjCol [StrV ''2020-01-05'', StrV ''2021-03-03'']),
      (''tempo'', FloatCol [None, None])]"

text \<open>
  Three tracks, the last two under one \<open>id\<close>, whose tempos are missing, infinite and
  minus infinite; the table \<open>clean_tracks\<close> makes of it, and the table it makes of that.
\<close>

definition unbounded_tracks :: table where
  "unbounded_tracks =
     [(''id'', IntCol [1, 2, 2]),
      (''release_date'', DateCol [Some (Timestamp 2020 1 5), Some (Timestamp 2020 1 5),
                                  Some (Timestamp 2020 1 5)]),
      (''tempo'', FloatCol [None, Some PInf, Some NInf])]"



definition text_artists :: table where
  "text_artists =
     [(''id'', IntCol [1]),
      (''genres'', ObjCol [StrV ''pop'']),
      (''followers'', ObjCol [StrV ''many'']),
      (''popularity'', IntCol [50])]"



section \<open>Frames and sorting: auxiliary facts\<close>

lemma filter_mask_Nil [simp]: "filter_mask [] xs = []" "filter_mask m [] = []"
  by (simp_all add: filter_mask_def)

lemma filter_mask_Cons [simp]:
  "filter_mask (b # m) (x # xs) = (if b then x # filter_mask m xs else filter_mask m xs)"
  by (simp add: filter_mask_def)

lemma filter_mask_map: "filter_mask m (map f xs) = map f (filter_mask m xs)"
proof (induction m arbitrary: xs)
  case Nil
  then show ?case by simp
next
  case (Cons b m)
  then show ?case by (cases xs) simp_all
qed



lemma map_of_apsnd: "map_of (map (apsnd f) df) k = map_option f (map_of df k)"
  by (induction df) auto

lemma map_of_select_mask: "map_of (select_mask m df) k = map_option (col_mask m) (map_of df k)"
  by (simp add: select_mask_def map_of_apsnd)

lemma map_of_take_rows: "map_of (take_rows idx df) k = map_option (col_take idx) (map_of df k)"
  by (simp add: take_rows_def map_of_apsnd)

lemma map_of_update: "map_of (AList.update k v df) k' = (if k' = k then Some v else map_of df k')"
  by (simp add: update_conv')

lemma to_numeric_col_mask: "to_numeric L (col_mask m c) = filter_mask m (to_numeric L c)"
  by (cases c) (simp_all add: filter_mask_map)

lemma rev_index_upt: "map (\<lambda>j. n - 1 - j) [0..<n] = rev [0..<n]"
  by (rule nth_equalityI) (simp_all add: rev_nth)

lemma nargsort_desc_perm:
  assumes "argsort_ok (argsort L)"
  shows "mset (nargsort_desc L ks) = mset [0..<length ks]"
proof -
  let ?f = "\<lambda>j. length ks - 1 - j"
  have "mset (argsort L (rev ks)) = mset [0..<length (rev ks)]"
    using assms unfolding argsort_ok_def by blast
  then have "image_mset ?f (mset (argsort L (rev ks))) = image_mset ?f (mset [0..<length ks])"
    by simp
  also have "\<dots> = mset (map ?f [0..<length ks])"
    by (simp only: mset_map)
  also have "\<dots> = mset [0..<length ks]"
    by (simp only: rev_index_upt mset_rev)
  finally show ?thesis
    by (simp only: nargsort_desc_def Let_def mset_rev mset_map)
qed

lemma nargsort_desc_sorted:
  assumes "argsort_ok (argsort L)"
  shows "sorted (rev (map (nth ks) (nargsort_desc L ks)))"
proof -
  let ?p = "argsort L (rev ks)"
  have perm: "mset ?p = mset [0..<length (rev ks)]" and srt: "sorted (map (nth (rev ks)) ?p)"
    using assms unfolding argsort_ok_def by blast+
  have "set ?p = {0..<length ks}"
    using perm by (metis mset_eq_setD set_upt length_rev)
  then have "map (\<lambda>j. ks ! (length ks - 1 - j)) ?p = map (nth (rev ks)) ?p"
    by (auto simp: rev_nth)
  then have "rev (map (nth ks) (nargsort_desc L ks)) = map (nth (rev ks)) ?p"
    by (simp add: nargsort_desc_def rev_map o_def)
  then show ?thesis
    using srt by simp
qed

lemma nargsort_desc_set:
  assumes "argsort_ok (argsort L)"
  shows "set (nargsort_desc L ks) = {0..<length ks}"
  using nargsort_desc_perm [OF assms, of ks] by (metis mset_eq_setD set_upt)





lemma rbind_simps [simp]: "rbind (Inl e) f = Inl e" "rbind (Inr x) f = f x"
  by (simp_all add: rbind_def)

lemma get_col_simps:
  "map_of df k = Some c \<Longrightarrow> get_col df k = Inr c"
  "map_of df k = None \<Longrightarrow> get_col df k = Inl (KeyError k)"
  by (simp_all add: get_col_def)

section \<open>The analyzers on a table that lacks a column\<close>

text \<open>
  Each analyzer returns an empty result when the column it is named after is absent:
  the ranking functions return the input's columns with no rows, the genre histogram and
  the trend return an empty series.
\<close>

lemma head_0_columns: "columns (head 0 df) = columns df"
  by (induction df) (auto simp: columns_def head_def)

lemma col_head_0: "cells_of (col_head 0 c) = []"
  by (cases c) (simp_all add: py_head_def)

lemma head_0_no_rows: "(n, c) \<in> set (head 0 df) \<Longrightarrow> cells_of c = []"
  by (auto simp: head_def col_head_0)

lemma missing_column_degrades:
  "map_of t ''popularity'' = None \<Longrightarrow> get_top_popular_tracks L t th n = Inr (head 0 t)"
  "map_of t ''followers'' = None \<Longrightarrow> top_artists_by_followers L t n = Inr (head 0 t)"
  "map_of t ''genres'' = None \<Longrightarrow> genre_distribution L t = Inr []"
  "map_of t ''release_date'' = None \<Longrightarrow> popularity_trend L t freq = Inr []"
  by (simp_all add: get_top_popular_tracks_def top_artists_by_followers_def
      genre_distribution_def popularity_trend_def)

text \<open>
  A second column can be absent. \<open>popularity_trend\<close> guards the coercion of
  \<open>popularity\<close> by a test that the column is there, and then reads the column without
  the test: on every table that has \<open>release_date\<close> and no \<open>popularity\<close> the read
  raises \<^verbatim>\<open>KeyError\<close>. An exception of \<^verbatim>\<open>ast.literal_eval\<close> that the loop of
  \<open>genre_distribution\<close> does not catch leaves the function as well.
\<close>

lemma trend_needs_popularity:
  assumes "map_of t ''release_date'' = Some rd" and "map_of t ''popularity'' = None"
  shows "popularity_trend L t freq = Inl (KeyError ''popularity'')"
proof -
  have "map_of (select_mask m (AList.update ''release_date'' c t)) ''popularity'' = None" for m c
    by (simp add: map_of_select_mask map_of_update assms(2))
  then show ?thesis
    by (simp add: popularity_trend_def assms(1) Let_def get_col_def del: not_None_eq)
qed

lemma genre_distribution_propagates:
  assumes "map_of t ''genres'' = Some (ObjCol [StrV s])" and "literal_eval L s = Inl TypeError"
  shows "genre_distribution L t = Inl TypeError"
  by (simp add: genre_distribution_def assms dropna_def)

text \<open>
  C1. No analyzer raises for a missing input column: with the column absent it returns an
  empty result. \<open>popularity_trend\<close> does not keep to it: on the table below, which has
  a \<open>release_date\<close> column and no \<open>popularity\<close> column, it raises \<^verbatim>\<open>KeyError\<close>.
\<close>

theorem trend_without_popularity_raises:
  "popularity_trend example_lib dated_only_tracks ''YE'' = Inl (KeyError ''popularity'')"
  by code_simp

text \<open>
  C9. The legacy yearly code \<^verbatim>\<open>Y\<close> gives the result of the canonical code \<^verbatim>\<open>YE\<close>,
  on every table and whatever the library makes of a frequency code.
\<close>

theorem legacy_yearly_alias:
  "popularity_trend L tracks ''Y'' = popularity_trend L tracks ''YE''"
  by (simp add: popularity_trend_def py_upper_def upper_char_def)

theorem legacy_yearly_alias_witness:
  "popularity_trend example_lib trend_tracks ''Y'' = Inr [(2020, Some (Fin 60)), (2021, Some (Fin 90))]
   \<and> popularity_trend example_lib trend_tracks ''YE'' = Inr [(2020, Some (Fin 60)), (2021, Some (Fin 90))]"
proof -
  have "popularity_trend example_lib trend_tracks ''YE'' = Inr [(2020, Some (Fin 60)), (2021, Some (Fin 90))]"
    by code_simp
  then show ?thesis
    using legacy_yearly_alias [of example_lib trend_tracks] by simp
qed

section \<open>The ranking of tracks\<close>




lemma floats_astype_int_infinite:
  "Some PInf \<in> set xs \<or> Some NInf \<in> set xs \<Longrightarrow> floats_astype_int xs = Inl ValueError"
proof (induction xs)
  case Nil
  then show ?case by simp
next
  case (Cons x xs)
  show ?case
  proof (cases "float_astype_int x")
    case (Inl e)
    then have "e = ValueError"
      by (cases x rule: float_astype_int.cases) simp_all
    then show ?thesis
      using Inl by (simp add: floats_astype_int_def)
  next
    case (Inr i)
    then have "x \<noteq> Some PInf" "x \<noteq> Some NInf"
      by auto
    then have "floats_astype_int xs = Inl ValueError"
      using Cons by auto
    then show ?thesis
      using Inr by (simp add: floats_astype_int_def)
  qed
qed




section \<open>The popularity trend\<close>

lemma present_Cons [simp]:
  "present [] = []" "present (None # xs) = present xs" "present (Some x # xs) = x # present xs"
  by (simp_all add: present_def)

lemma dropna_rows:
  "zip (map period (present (filter_mask (map (\<lambda>d. d \<noteq> None) dates) dates)))
       (filter_mask (map (\<lambda>d. d \<noteq> None) dates) vals)
   = dated_rows period dates vals"
proof (induction dates arbitrary: vals)
  case Nil
  then show ?case by (simp add: dated_rows_def)
next
  case (Cons d ds)
  show ?case
  proof (cases vals)
    case Nil
    then show ?thesis by (simp add: dated_rows_def)
  next
    case (Cons v vs)
    with Cons.IH [of vs] show ?thesis
      by (cases d) (simp_all add: dated_rows_def del: not_None_eq)
  qed
qed

lemma bucket_range_Min_Max:
  "bucket_range ks = (if ks = [] then [] else [Min (set ks)..Max (set ks)])"
  by (cases ks) (simp_all add: bucket_range_def flip: Min.set_eq_fold Max.set_eq_fold)

text \<open>
  C7 (amended). With a \<open>release_date\<close> and a \<open>popularity\<close> column and a frequency code
  the library accepts, \<open>popularity_trend\<close> drops the rows without a release date,
  and returns one bucket for every period from the earliest to the latest release date,
  in ascending order, each with the mean of the popularities of its rows that are not
  missing. A period in between that holds no row, or only rows without a popularity, is
  kept, with a missing mean. Dates in 2020 (popularity 50, 70) and 2021 (popularity 90)
  at yearly frequency give 2020 \<open>\<mapsto>\<close> 60 and 2021 \<open>\<mapsto>\<close> 90.
\<close>

theorem trend_buckets:
  assumes rd: "map_of tracks ''release_date'' = Some rd"
      and p: "map_of tracks ''popularity'' = Some p"
      and off: "to_offset L (if py_upper freq = ''Y'' then ''YE'' else freq) = Some period"
      and rows: "rows = dated_rows period (to_datetime L rd) (to_numeric L p)"
  shows "\<exists>r. popularity_trend L tracks freq = Inr r
           \<and> map fst r = (if rows = [] then [] else [Min (fst ` set rows)..Max (fst ` set rows)])
           \<and> map snd r = map (\<lambda>k. mean_skipna (map snd (filter (\<lambda>x. fst x = k) rows))) (map fst r)
           \<and> sorted (map fst r) \<and> distinct (map fst r)"
proof -
  let ?dates = "to_datetime L rd"
  let ?keep = "map (\<lambda>d. d \<noteq> None) ?dates"
  let ?df = "select_mask ?keep (AList.update ''release_date'' (DateCol ?dates) tracks)"
  let ?r = "map (\<lambda>k. (k, mean_skipna (map snd (filter (\<lambda>x. fst x = k) rows))))
              (bucket_range (map fst rows))"
  have pc: "map_of ?df ''popularity'' = Some (col_mask ?keep p)"
    by (simp add: map_of_select_mask map_of_update p del: not_None_eq)
  have "popularity_trend L tracks freq
        = resample_mean L (if py_upper freq = ''Y'' then ''YE'' else freq)
            (present (filter_mask ?keep ?dates)) (filter_mask ?keep (to_numeric L p))"
    by (simp add: popularity_trend_def rd pc Let_def get_col_def map_of_update
        to_numeric_col_mask del: not_None_eq to_numeric.simps)
  also have "\<dots> = Inr ?r"
    by (simp add: resample_mean_def off Let_def dropna_rows rows del: not_None_eq)
  finally have res: "popularity_trend L tracks freq = Inr ?r" .
  have keys: "map fst ?r = bucket_range (map fst rows)"
    by (simp add: o_def)
  have rng: "bucket_range (map fst rows)
             = (if rows = [] then [] else [Min (fst ` set rows)..Max (fst ` set rows)])"
    by (simp add: bucket_range_Min_Max)
  have "map fst ?r = (if rows = [] then [] else [Min (fst ` set rows)..Max (fst ` set rows)])"
    using keys rng by (simp only:)
  moreover have "map snd ?r
      = map (\<lambda>k. mean_skipna (map snd (filter (\<lambda>x. fst x = k) rows))) (map fst ?r)"
    by (simp add: o_def)
  moreover have "sorted (bucket_range (map fst rows))" "distinct (bucket_range (map fst rows))"
    unfolding rng by simp_all
  then have "sorted (map fst ?r)" "distinct (map fst ?r)"
    using keys by (simp_all only:)
  ultimately show ?thesis
    using res by blast
qed

theorem trend_buckets_witness:
  "map_of trend_tracks ''release_date''
     = Some (ObjCol [StrV ''2020-01-05'', StrV ''2020-07-01'', StrV ''2021-03-03''])
   \<and> map_of trend_tracks ''popularity'' = Some (IntCol [50, 70, 90])
   \<and> to_offset example_lib ''YE'' = Some ts_year
   \<and> dated_rows ts_year
        (to_datetime example_lib (ObjCol [StrV ''2020-01-05'', StrV ''2020-07-01'', StrV ''2021-03-03'']))
        (to_numeric example_lib (IntCol [50, 70, 90]))
       = [(2020, Some (Fin 50)), (2020, Some (Fin 70)), (2021, Some (Fin 90))]
   \<and> popularity_trend example_lib trend_tracks ''YE''
       = Inr [(2020, Some (Fin 60)), (2021, Some (Fin 90))]
   \<and> (\<exists>r. popularity_trend example_lib trend_tracks ''YE'' = Inr r
          \<and> sorted (map fst r) \<and> distinct (map fst r))"
proof -
  have rd: "map_of trend_tracks ''release_date''
     = Some (ObjCol [StrV ''2020-01-05'', StrV ''2020-07-01'', StrV ''2021-03-03''])"
    by (simp add: trend_tracks_def)
  have p: "map_of trend_tracks ''popularity'' = Some (IntCol [50, 70, 90])"
    by (simp add: trend_tracks_def)
  have off: "to_offset example_lib ''YE'' = Some ts_year"
    by (simp add: example_lib_def example_offset_def)
  have off1: "to_offset example_lib (if py_upper ''YE'' = ''Y'' then ''YE'' else ''YE'') = Some ts_year"
    using off by simp
  have rows: "dated_rows ts_year
        (to_datetime example_lib (ObjCol [StrV ''2020-01-05'', StrV ''2020-07-01'', StrV ''2021-03-03'']))
        (to_numeric example_lib (IntCol [50, 70, 90]))
       = [(2020, Some (Fin 50)), (2020, Some (Fin 70)), (2021, Some (Fin 90))]"
    by code_simp
  have ev: "popularity_trend example_lib trend_tracks ''YE''
       = Inr [(2020, Some (Fin 60)), (2021, Some (Fin 90))]"
    by code_simp
  from trend_buckets [OF rd p off1 refl]
  have "\<exists>r. popularity_trend example_lib trend_tracks ''YE'' = Inr r
          \<and> sorted (map fst r) \<and> distinct (map fst r)"
    by blast
  then show ?thesis
    using rd p off rows ev by blast
qed

text \<open>
  The claim as stated omits empty buckets. \<^verbatim>\<open>resample\<close> keeps them: releases in 2020
  and 2022 give a bucket for 2021 whose mean is missing.
\<close>

theorem empty_bucket_counterexample:
  "popularity_trend example_lib gap_tracks ''YE''
   = Inr [(2020, Some (Fin 50)), (2021, None), (2022, Some (Fin 90))]"
  by code_simp

section \<open>The genre distribution\<close>

lemma genre_tokens_ok:
  "literal_ok L v \<Longrightarrow> genre_tokens L v = Inr (genre_tokens_spec L v)"
  by (cases v) (auto simp: literal_ok_def genre_tokens_spec_def
      split: sum.splits option.splits py_error.splits)

lemma collect_genres_ok:
  "list_all (literal_ok L) vs \<Longrightarrow>
   collect_genres L acc vs = Inr (acc @ concat (map (genre_tokens_spec L) vs))"
  by (induction vs arbitrary: acc) (simp_all add: genre_tokens_ok)

lemma perm_nth:
  assumes "mset idx = mset [0..<length xs]"
  shows "mset (map (nth xs) idx) = mset xs"
proof -
  have "mset (map (nth xs) idx) = image_mset (nth xs) (mset [0..<length xs])"
    using assms by (simp only: mset_map)
  also have "\<dots> = mset (map (nth xs) [0..<length xs])"
    by (simp only: mset_map)
  finally show ?thesis
    by (simp only: map_nth)
qed

lemma map_nth_idx:
  "set idx \<subseteq> {0..<length xs} \<Longrightarrow> map f (map (nth xs) idx) = map (nth (map f xs)) idx"
  by (induction idx) simp_all

lemma length_keep_first [simp]: "length (keep_first seen ks) = length ks"
  by (induction ks arbitrary: seen) simp_all

lemma kept_distinct:
  "distinct (filter_mask (keep_first seen ks) ks)
   \<and> set (filter_mask (keep_first seen ks) ks) \<inter> set seen = {}
   \<and> set (filter_mask (keep_first seen ks) ks) \<subseteq> set ks"
proof (induction ks arbitrary: seen)
  case Nil
  then show ?case by simp
next
  case (Cons k ks)
  from Cons [of "k # seen"] show ?case
    by auto
qed

lemma kept_set: "set (filter_mask (keep_first seen ks) ks) = set ks - set seen"
proof (induction ks arbitrary: seen)
  case Nil
  then show ?case by simp
next
  case (Cons k ks)
  from Cons [of "k # seen"] show ?case
    by auto
qed

lemma set_filter_mask: "set (filter_mask m xs) \<subseteq> set xs"
proof (induction m arbitrary: xs)
  case Nil
  then show ?case by simp
next
  case (Cons b m)
  then show ?case by (cases xs) auto
qed

text \<open>
  The first occurrences of a list under a key: their keys are the keys of the list, each
  once.
\<close>

lemma firsts_keys:
  "distinct (map f (filter_mask (keep_first [] (map f vs)) vs))"
  "set (map f (filter_mask (keep_first [] (map f vs)) vs)) = f ` set vs"
  using kept_distinct [of "[]" "map f vs"] kept_set [of "[]" "map f vs"]
  by (simp_all flip: filter_mask_map)

text \<open>
  \<^verbatim>\<open>value_counts\<close>: every value of the series is counted under one key, a key comes
  with the number of the values equal to it, and the counts descend.
\<close>

lemma value_counts_props:
  assumes srt: "argsort_ok (argsort L)"
  shows "distinct (map (\<lambda>kc. scalar_key (fst kc)) (value_counts L xs))"
    and "(\<lambda>kc. scalar_key (fst kc)) ` set (value_counts L xs) = scalar_key ` set (series_values xs)"
    and "\<forall>kc \<in> set (value_counts L xs).
           fst kc \<in> set (series_values xs)
           \<and> snd kc = length (filter (\<lambda>v. scalar_key v = scalar_key (fst kc)) (series_values xs))"
    and "sorted (rev (map snd (value_counts L xs)))"
proof -
  define vs where "vs = series_values xs"
  define firsts where "firsts = filter_mask (keep_first [] (map scalar_key vs)) vs"
  define cnt where "cnt = (\<lambda>k. length (filter (\<lambda>v. scalar_key v = scalar_key k) vs))"
  define counted where "counted = map (\<lambda>k. (k, cnt k)) firsts"
  define keys where "keys = map (\<lambda>kc. int (snd kc)) counted"
  define idx where "idx = nargsort_desc L keys"
  have vc: "value_counts L xs = map (nth counted) idx"
    by (simp add: value_counts_def Let_def vs_def firsts_def cnt_def counted_def keys_def idx_def)
  have perm: "mset idx = mset [0..<length counted]"
    using nargsort_desc_perm [OF srt, of keys] by (simp add: idx_def keys_def)
  have ms: "mset (value_counts L xs) = mset counted"
    unfolding vc using perm by (rule perm_nth)
  have st: "set (value_counts L xs) = set counted"
    using ms by (rule mset_eq_setD)
  have fk: "distinct (map scalar_key firsts)" "set (map scalar_key firsts) = scalar_key ` set vs"
    unfolding firsts_def by (rule firsts_keys)+
  have fs: "set firsts \<subseteq> set vs"
    unfolding firsts_def by (rule set_filter_mask)
  have ck: "map (\<lambda>kc. scalar_key (fst kc)) counted = map scalar_key firsts"
    by (simp add: counted_def o_def)
  have "mset (map (\<lambda>kc. scalar_key (fst kc)) (value_counts L xs))
        = image_mset (\<lambda>kc. scalar_key (fst kc)) (mset counted)"
    by (simp only: mset_map ms)
  also have "\<dots> = mset (map scalar_key firsts)"
    by (simp only: ck flip: mset_map)
  finally have "distinct (map (\<lambda>kc. scalar_key (fst kc)) (value_counts L xs))
                = distinct (map scalar_key firsts)"
    by (rule mset_eq_imp_distinct_iff)
  then show "distinct (map (\<lambda>kc. scalar_key (fst kc)) (value_counts L xs))"
    using fk(1) by (simp only:)
  have "(\<lambda>kc. scalar_key (fst kc)) ` set counted = set (map (\<lambda>kc. scalar_key (fst kc)) counted)"
    by (simp only: set_map)
  then show "(\<lambda>kc. scalar_key (fst kc)) ` set (value_counts L xs) = scalar_key ` set (series_values xs)"
    by (simp only: st ck fk(2) vs_def)
  have "fst kc \<in> set vs \<and> snd kc = cnt (fst kc)" if kc: "kc \<in> set counted" for kc
  proof -
    obtain k where "k \<in> set firsts" "kc = (k, cnt k)"
      using kc by (auto simp: counted_def)
    then show ?thesis
      using fs by auto
  qed
  then show "\<forall>kc \<in> set (value_counts L xs).
           fst kc \<in> set (series_values xs)
           \<and> snd kc = length (filter (\<lambda>v. scalar_key v = scalar_key (fst kc)) (series_values xs))"
    unfolding st vs_def cnt_def by blast
  have "set idx = set [0..<length counted]"
    using perm by (rule mset_eq_setD)
  then have "set idx \<subseteq> {0..<length counted}"
    by simp
  then have "map (\<lambda>kc. int (snd kc)) (map (nth counted) idx) = map (nth keys) idx"
    unfolding keys_def by (rule map_nth_idx)
  then have "sorted (rev (map (\<lambda>kc. int (snd kc)) (value_counts L xs)))"
    using nargsort_desc_sorted [OF srt, of keys] by (simp only: vc idx_def)
  then have "sorted (map int (rev (map snd (value_counts L xs))))"
    by (simp add: rev_map o_def)
  then show "sorted (rev (map snd (value_counts L xs)))"
    by (simp add: sorted_map)
qed

lemma genre_distribution_value_counts:
  assumes g: "map_of artists ''genres'' = Some g"
      and ok: "list_all (literal_ok L) (cells_of g)"
  shows "genre_distribution L artists
         = Inr (value_counts L (concat (map (genre_tokens_spec L) (dropna (cells_of g)))))"
proof -
  have "list_all (literal_ok L) (dropna (cells_of g))"
    using ok by (simp add: dropna_def list_all_iff)
  then show ?thesis
    by (simp add: genre_distribution_def g collect_genres_ok)
qed

text \<open>
  Where \<^verbatim>\<open>ast.literal_eval\<close> raises nothing but \<^verbatim>\<open>ValueError\<close> and \<^verbatim>\<open>SyntaxError\<close> on
  the strings of the column, \<open>genre_distribution\<close> does what the specification says: it
  takes the tokens of every value that is not missing by the precedence list, literal
  list, comma-separated string, and returns each token once with the number of its
  occurrences, the counts descending.
\<close>

lemma genre_distribution_when_caught:
  assumes srt: "argsort_ok (argsort L)"
      and g: "map_of artists ''genres'' = Some g"
      and ok: "list_all (literal_ok L) (cells_of g)"
      and toks: "tokens = series_values (concat (map (genre_tokens_spec L) (dropna (cells_of g))))"
  shows "\<exists>d. genre_distribution L artists = Inr d
            \<and> distinct (map (\<lambda>kc. scalar_key (fst kc)) d)
            \<and> (\<lambda>kc. scalar_key (fst kc)) ` set d = scalar_key ` set tokens
            \<and> (\<forall>kc \<in> set d. fst kc \<in> set tokens
                  \<and> snd kc = length (filter (\<lambda>v. scalar_key v = scalar_key (fst kc)) tokens))
            \<and> sorted (rev (map snd d))"
  using genre_distribution_value_counts [OF g ok]
    value_counts_props [OF srt, of "concat (map (genre_tokens_spec L) (dropna (cells_of g)))"]
  by (simp add: toks)

text \<open>
  On the values of the specification's example, \<^verbatim>\<open>"['pop','rock']"\<close>, \<^verbatim>\<open>"pop, jazz"\<close>
  and \<^verbatim>\<open>["rock"]\<close>, the counts are pop 2, rock 2, jazz 1.
\<close>

lemma genre_distribution_example:
  "genre_distribution example_lib genre_artists
     = Inr [(StrS ''pop'', 2), (StrS ''rock'', 2), (StrS ''jazz'', 1)]"
  by code_simp

text \<open>
  C8. \<open>genre_distribution\<close> takes the tokens of a string that does not parse as a
  literal list by splitting it on commas. The loop does so when \<^verbatim>\<open>ast.literal_eval\<close>
  raises \<^verbatim>\<open>ValueError\<close> or \<^verbatim>\<open>SyntaxError\<close>, the two exceptions its handler names. On the
  string \<^verbatim>\<open>{{}}\<close> \<^verbatim>\<open>literal_eval\<close> raises \<^verbatim>\<open>TypeError\<close> (a set that holds a dictionary),
  the handler lets it pass, and the function raises where the string should have been
  one token: the genres \<^verbatim>\<open>"pop, jazz"\<close> and \<^verbatim>\<open>"{{}}"\<close> give no distribution.
\<close>

theorem genre_distribution_raises_on_braces:
  "genre_distribution example_lib braces_artists = Inl TypeError"
  by code_simp

section \<open>The cleaners applied twice\<close>

lemma char_of_small_neq:
  assumes "a < 256" "b < 256" "a \<noteq> b"
  shows "char_of (a::nat) \<noteq> char_of (b::nat)"
proof
  assume "char_of a = char_of b"
  then have "(of_char (char_of a) :: nat) = of_char (char_of b)"
    by simp
  then have "a mod 256 = b mod 256"
    by (simp only: of_char_of)
  then show False
    using assms by simp
qed

lemma of_char_lower_char:
  "(of_char (lower_char c) :: nat) =
     (if (65 \<le> (of_char c :: nat) \<and> (of_char c :: nat) \<le> 90)
         \<or> (192 \<le> (of_char c :: nat) \<and> (of_char c :: nat) \<le> 222 \<and> (of_char c :: nat) \<noteq> 215)
      then of_char c + 32 else of_char c)"
  by (simp add: lower_char_def Let_def)

lemma lower_char_idem [simp]: "lower_char (lower_char c) = lower_char c"
proof -
  let ?n = "of_char (lower_char c) :: nat"
  have "\<not> ((65 \<le> ?n \<and> ?n \<le> 90) \<or> (192 \<le> ?n \<and> ?n \<le> 222 \<and> ?n \<noteq> 215))
        \<or> lower_char c = c"
    unfolding of_char_lower_char [of c] by (auto simp: lower_char_def Let_def)
  then show ?thesis
  proof
    assume "\<not> ((65 \<le> ?n \<and> ?n \<le> 90) \<or> (192 \<le> ?n \<and> ?n \<le> 222 \<and> ?n \<noteq> 215))"
    then show ?thesis
      unfolding lower_char_def [of "lower_char c"] Let_def by (simp only: if_False)
  next
    assume "lower_char c = c"
    then show ?thesis by simp
  qed
qed

lemma is_space_lower_char [simp]: "is_space (lower_char c) = is_space c"
  unfolding is_space_def Let_def of_char_lower_char [of c] by auto

lemma bracket_codes:
  "CHR ''['' = char_of (91::nat)" "CHR '']'' = char_of (93::nat)" "CHR 0x27 = char_of (39::nat)"
  by code_simp+

lemma lower_char_not_bracket:
  assumes "c \<noteq> CHR ''[''" "c \<noteq> CHR '']''" "c \<noteq> CHR 0x27"
  shows "lower_char c \<noteq> CHR ''['' \<and> lower_char c \<noteq> CHR '']'' \<and> lower_char c \<noteq> CHR 0x27"
proof (cases "(65 \<le> (of_char c :: nat) \<and> (of_char c :: nat) \<le> 90)
         \<or> (192 \<le> (of_char c :: nat) \<and> (of_char c :: nat) \<le> 222 \<and> (of_char c :: nat) \<noteq> 215)")
  case True
  then have l: "lower_char c = char_of ((of_char c :: nat) + 32)"
    by (simp add: lower_char_def Let_def)
  have "char_of ((of_char c :: nat) + 32) \<noteq> char_of (91::nat)"
       "char_of ((of_char c :: nat) + 32) \<noteq> char_of (93::nat)"
       "char_of ((of_char c :: nat) + 32) \<noteq> char_of (39::nat)"
    using True by (intro char_of_small_neq; arith)+
  then show ?thesis
    by (simp only: l bracket_codes simp_thms)
next
  case False
  then have "lower_char c = c"
    by (auto simp: lower_char_def Let_def)
  then show ?thesis
    using assms by simp
qed

lemma lower_underscore: "lower_char CHR ''_'' = CHR ''_''"
  by code_simp

lemma norm_char_idem: "norm_char (norm_char c) = norm_char c"
proof (cases "lower_char c = CHR '' ''")
  case True
  then show ?thesis
    by (simp add: norm_char_def lower_underscore)
next
  case False
  then show ?thesis
    by (simp add: norm_char_def)
qed

lemma norm_label_map: "norm_label s = map norm_char s"
  by (simp add: norm_label_def py_lower_def norm_char_def)

lemma norm_label_idem [simp]: "norm_label (norm_label s) = norm_label s"
  by (simp add: norm_label_map norm_char_idem)

lemma py_lower_idem [simp]: "py_lower (py_lower s) = py_lower s"
  by (simp add: py_lower_def)

lemma py_strip_lower: "py_strip (py_lower s) = py_lower (py_strip s)"
  by (simp add: py_strip_def py_lower_def dropWhile_map rev_map o_def)

lemma py_strip_idem [simp]: "py_strip (py_strip s) = py_strip s"
proof -
  let ?A = "dropWhile is_space s"
  let ?B = "dropWhile is_space (rev ?A)"
  have "dropWhile is_space (rev ?B) = rev ?B"
  proof (cases "?B = []")
    case True
    then show ?thesis by (simp only: rev.simps dropWhile.simps)
  next
    case False
    then have ne: "rev ?A \<noteq> []"
      by (cases "rev ?A = []") simp_all
    have "\<not> is_space (hd ?A)"
      using ne hd_dropWhile [of is_space s] by simp
    moreover have "last ?B = last (rev ?A)"
      using False by (metis last_appendR takeWhile_dropWhile_id)
    ultimately have "\<not> is_space (hd (rev ?B))"
      using False ne by (simp add: hd_rev last_rev)
    then show ?thesis
      using False by (cases "rev ?B") simp_all
  qed
  then show ?thesis
    by (simp add: py_strip_def)
qed

lemma set_py_strip: "set (py_strip xs) \<subseteq> set xs"
proof -
  have "set (dropWhile is_space (rev (dropWhile is_space xs))) \<subseteq> set (rev (dropWhile is_space xs))"
    using set_dropWhileD by fast
  moreover have "set (dropWhile is_space xs) \<subseteq> set xs"
    using set_dropWhileD by fast
  ultimately show ?thesis
    unfolding py_strip_def by (simp only: set_rev)
qed

lemma strip_brackets_lower:
  "strip_brackets (py_lower (py_strip (strip_brackets s))) = py_lower (py_strip (strip_brackets s))"
proof -
  let ?ok = "\<lambda>c. c \<noteq> CHR ''['' \<and> c \<noteq> CHR '']'' \<and> c \<noteq> CHR 0x27"
  have "\<forall>c \<in> set (strip_brackets s). ?ok c"
    by (simp add: strip_brackets_def)
  then have "\<forall>c \<in> set (py_strip (strip_brackets s)). ?ok c"
    using set_py_strip [of "strip_brackets s"] by blast
  then have "\<forall>c \<in> set (py_strip (strip_brackets s)). ?ok (lower_char c)"
    using lower_char_not_bracket by blast
  then have "\<forall>c \<in> set (py_lower (py_strip (strip_brackets s))). ?ok c"
    unfolding py_lower_def by (simp only: set_map ball_simps)
  then have "filter ?ok (py_lower (py_strip (strip_brackets s))) = py_lower (py_strip (strip_brackets s))"
    by (simp only: filter_id_conv)
  then show ?thesis
    unfolding strip_brackets_def [of "py_lower (py_strip (strip_brackets s))"] .
qed

lemma clean_genres_str_idem [simp]:
  "clean_genres_str (clean_genres_str s) = clean_genres_str s"
proof -
  let ?u = "py_strip (strip_brackets s)"
  have "clean_genres_str (clean_genres_str s) = py_lower (py_strip (strip_brackets (py_lower ?u)))"
    by (simp only: clean_genres_str_def)
  also have "\<dots> = py_lower (py_strip (py_lower ?u))"
    by (simp only: strip_brackets_lower)
  also have "\<dots> = py_lower (py_lower (py_strip ?u))"
    by (simp only: py_strip_lower)
  also have "\<dots> = py_lower ?u"
    by (simp only: py_strip_idem py_lower_idem)
  finally show ?thesis
    by (simp only: clean_genres_str_def)
qed









lemma length_dedup_mask [simp]: "length (dedup_mask c) = length (cells_of c)"
  by (simp add: dedup_mask_def)


lemma drop_duplicates_InrD:
  assumes "drop_duplicates key df = Inr df'"
  shows "\<exists>c. map_of df key = Some c \<and> df' = select_mask (dedup_mask c) df"
  using assms
  by (cases "map_of df key") (auto simp: drop_duplicates_def get_col_def)


lemma cells_of_fillna_str:
  "map (clean_genres_cell L) (cells_of (fillna_str ''Unknown'' g)) = map (cleaned_genres L) (cells_of g)"
  by (simp add: fillna_str_def cleaned_genres_def)

lemma clean_artists_unfold:
  assumes g: "map_of (rename_columns t) ''genres'' = Some g"
      and f: "map_of (rename_columns t) ''followers'' = Some f"
      and p: "map_of (rename_columns t) ''popularity'' = Some p"
  shows "clean_artists L t =
           rbind (fillna0_astype_int L f) (\<lambda>fs.
           rbind (fillna0_astype_int L p) (\<lambda>ps.
           drop_duplicates ''id'' (artist_frame L g fs ps (rename_columns t))))"
  by (simp add: clean_artists_def Let_def get_col_simps map_of_update g f p artist_frame_def
      cells_of_fillna_str cong: sum.case_cong)

lemma clean_artists_InrD:
  assumes "clean_artists L t = Inr t'"
  shows "\<exists>g f p fs ps.
           map_of (rename_columns t) ''genres'' = Some g
         \<and> map_of (rename_columns t) ''followers'' = Some f
         \<and> map_of (rename_columns t) ''popularity'' = Some p
         \<and> fillna0_astype_int L f = Inr fs
         \<and> fillna0_astype_int L p = Inr ps
         \<and> drop_duplicates ''id'' (artist_frame L g fs ps (rename_columns t)) = Inr t'"
proof -
  let ?df = "rename_columns t"
  obtain g where g: "map_of ?df ''genres'' = Some g"
    using assms by (cases "map_of ?df ''genres''") (simp_all add: clean_artists_def Let_def get_col_def)
  obtain f where f: "map_of ?df ''followers'' = Some f"
    using assms g
    by (cases "map_of ?df ''followers''")
       (simp_all add: clean_artists_def Let_def get_col_def map_of_update)
  obtain p where p: "map_of ?df ''popularity'' = Some p"
    using assms g f
    by (cases "map_of ?df ''popularity''"; cases "fillna0_astype_int L f")
       (simp_all add: clean_artists_def Let_def get_col_def map_of_update)
  show ?thesis
    using assms unfolding clean_artists_unfold [OF g f p]
    by (cases "fillna0_astype_int L f"; cases "fillna0_astype_int L p") (simp_all add: g f p)
qed

lemma cleaned_genres_idem [simp]: "cleaned_genres L (cleaned_genres L v) = cleaned_genres L v"
  by (simp add: cleaned_genres_def clean_genres_cell_def)

lemma cleaned_genres_not_na [simp]: "\<not> is_na (cleaned_genres L v)"
  by (simp add: cleaned_genres_def clean_genres_cell_def)


lemma keys_select_mask [simp]: "map fst (select_mask m df) = map fst df"
  by (simp add: select_mask_def o_def)





lemma artist_frame_lookup:
  "map_of (artist_frame L g fs ps df) k =
     (if k = ''genres'' then Some (ObjCol (map (cleaned_genres L) (cells_of g)))
      else if k = ''popularity'' then Some (IntCol ps)
      else if k = ''followers'' then Some (IntCol fs)
      else map_of df k)"
  by (simp add: artist_frame_def map_of_update)




lemma clean_tracks_InrD:
  assumes "clean_tracks L t = Inr t'"
  shows "\<exists>rd. map_of (rename_columns t) ''release_date'' = Some rd
            \<and> drop_duplicates ''id'' (track_frame L rd (rename_columns t)) = Inr t'"
  using assms
  by (cases "map_of (rename_columns t) ''release_date''")
     (simp_all add: clean_tracks_def Let_def get_col_def track_frame_def)

lemma clean_features_unfold:
  "clean_features f = drop_duplicates ''track_id'' (map (apsnd fillna_median) (rename_columns f))"
  by (simp add: clean_features_def Let_def)

lemma to_datetime_DateCol [simp]: "to_datetime L (DateCol ds) = ds"
proof -
  have "cell_to_datetime L col (date_cell d) = d" for col d
    by (cases d) simp_all
  then show ?thesis
    by (simp add: to_datetime_def o_def)
qed

subsection \<open>The median of a column\<close>

lemma set_present: "set (present xs) = {v. Some v \<in> set xs}"
proof (induction xs)
  case Nil
  then show ?case by simp
next
  case (Cons x xs)
  then show ?case by (cases x) auto
qed


lemma length_sort_floats [simp]: "length (sort_floats ys) = length ys"
proof (induction ys)
  case Nil
  then show ?case by (simp add: sort_floats_def finite_parts_def)
next
  case (Cons y ys)
  then show ?case by (cases y) (simp_all add: sort_floats_def finite_parts_def)
qed

lemma finite_parts_Fin [simp]: "finite_parts (map Fin rs) = rs"
  by (induction rs) (simp_all add: finite_parts_def)

lemma finite_list:
  assumes "PInf \<notin> set ys" "NInf \<notin> set ys"
  shows "ys = map Fin (finite_parts ys)"
  using assms
proof (induction ys)
  case Nil
  then show ?case by (simp add: finite_parts_def)
next
  case (Cons y ys)
  then show ?case by (cases y) (simp_all add: finite_parts_def)
qed

lemma sort_floats_finite: "sort_floats (map Fin rs) = map Fin (sort rs)"
  by (simp add: sort_floats_def filter_empty_conv image_iff)

lemma col_median_Nil: "present xs = [] \<Longrightarrow> col_median xs = None"
  by (simp add: col_median_def sort_floats_def finite_parts_def)

text \<open>
  The median of a column that holds a value and no infinity is a number, and a median
  in the sense of the order.
\<close>

lemma sorted_le_count:
  assumes "sorted (s :: rat list)" "i < length s"
  shows "i < length (filter (\<lambda>v. v \<le> s ! i) s)"
proof -
  have "\<forall>v \<in> set (take (Suc i) s). v \<le> s ! i"
    using assms by (auto simp: in_set_conv_nth sorted_iff_nth_mono)
  then have "filter (\<lambda>v. v \<le> s ! i) (take (Suc i) s) = take (Suc i) s"
    by (simp only: filter_id_conv)
  moreover have "filter (\<lambda>v. v \<le> s ! i) s
      = filter (\<lambda>v. v \<le> s ! i) (take (Suc i) s) @ filter (\<lambda>v. v \<le> s ! i) (drop (Suc i) s)"
    by (simp only: append_take_drop_id flip: filter_append)
  ultimately have "length (filter (\<lambda>v. v \<le> s ! i) s) \<ge> length (take (Suc i) s)"
    by simp
  then show ?thesis
    using assms(2) by simp
qed

lemma sorted_ge_count:
  assumes "sorted (s :: rat list)" "i < length s"
  shows "length s - i \<le> length (filter (\<lambda>v. s ! i \<le> v) s)"
proof -
  have "\<forall>v \<in> set (drop i s). s ! i \<le> v"
    using assms by (auto simp: in_set_conv_nth sorted_iff_nth_mono)
  then have "filter (\<lambda>v. s ! i \<le> v) (drop i s) = drop i s"
    by (simp only: filter_id_conv)
  moreover have "filter (\<lambda>v. s ! i \<le> v) s
      = filter (\<lambda>v. s ! i \<le> v) (take i s) @ filter (\<lambda>v. s ! i \<le> v) (drop i s)"
    by (simp only: append_take_drop_id flip: filter_append)
  ultimately have "length (filter (\<lambda>v. s ! i \<le> v) s) \<ge> length (drop i s)"
    by simp
  then show ?thesis
    by simp
qed

lemma filter_le_mono:
  "(\<And>v. P v \<Longrightarrow> Q v) \<Longrightarrow> length (filter P xs) \<le> length (filter Q xs)"
  by (induction xs) auto

lemma halves_sort: "halves m (sort vs) = halves m vs"
proof -
  have "length (filter P (sort vs)) = length (filter P vs)" for P
  proof -
    have "mset (filter P (sort vs)) = mset (filter P vs)"
      by (simp only: mset_filter mset_sort)
    then show ?thesis
      by (rule mset_eq_length)
  qed
  then show ?thesis
    by (simp add: halves_def)
qed

lemma halves_middle:
  assumes s: "sorted (s :: rat list)" and ne: "s \<noteq> []"
  shows "halves (if odd (length s) then s ! (length s div 2)
                 else (s ! (length s div 2 - 1) + s ! (length s div 2)) / 2) s"
proof (cases "odd (length s)")
  case True
  let ?i = "length s div 2"
  have i: "?i < length s"
    using ne by simp
  have "length s \<le> 2 * Suc ?i"
    by arith
  moreover have "length s \<le> 2 * (length s - ?i)"
    by arith
  ultimately show ?thesis
    using sorted_le_count [OF s i] sorted_ge_count [OF s i] True
    by (simp add: halves_def)
next
  case False
  let ?n = "length s"
  let ?a = "s ! (?n div 2 - 1)" and ?b = "s ! (?n div 2)"
  let ?m = "(?a + ?b) / 2"
  have pos: "0 < ?n"
    using ne by simp
  then have n2: "1 \<le> ?n div 2"
    using False by presburger
  have ia: "?n div 2 - 1 < ?n" and ib: "?n div 2 < ?n"
    using pos by arith+
  have "?a \<le> ?b"
    using s ib by (simp add: sorted_iff_nth_mono)
  then have am: "?a \<le> ?m" and mb: "?m \<le> ?b"
    by (simp_all add: field_simps)
  have "length (filter (\<lambda>v. v \<le> ?a) s) \<le> length (filter (\<lambda>v. v \<le> ?m) s)"
    using am by (intro filter_le_mono) simp
  moreover have "?n div 2 - 1 < length (filter (\<lambda>v. v \<le> ?a) s)"
    using s ia by (rule sorted_le_count)
  ultimately have le: "?n div 2 \<le> length (filter (\<lambda>v. v \<le> ?m) s)"
    using n2 by arith
  have "length (filter (\<lambda>v. ?b \<le> v) s) \<le> length (filter (\<lambda>v. ?m \<le> v) s)"
    using mb by (intro filter_le_mono) simp
  moreover have "?n - ?n div 2 \<le> length (filter (\<lambda>v. ?b \<le> v) s)"
    using s ib by (rule sorted_ge_count)
  ultimately have ge: "?n - ?n div 2 \<le> length (filter (\<lambda>v. ?m \<le> v) s)"
    by arith
  have "?n = 2 * (?n div 2)"
    using False by presburger
  then have "?n \<le> 2 * length (filter (\<lambda>v. v \<le> ?m) s)"
            "?n \<le> 2 * length (filter (\<lambda>v. ?m \<le> v) s)"
    using le ge by arith+
  then show ?thesis
    using False by (simp add: halves_def)
qed

lemma col_median_finite:
  assumes fin: "Some PInf \<notin> set xs" "Some NInf \<notin> set xs" and ne: "present xs \<noteq> []"
  shows "\<exists>m. col_median xs = Some (Fin m) \<and> halves m (finite_parts (present xs))"
proof -
  let ?rs = "finite_parts (present xs)"
  let ?s = "sort ?rs"
  have p: "present xs = map Fin ?rs"
    using fin by (intro finite_list) (simp_all add: set_present)
  have sf: "sort_floats (present xs) = map Fin ?s"
    using sort_floats_finite [of ?rs] by (simp only: flip: p)
  have len: "length ?s = length (present xs)"
    using arg_cong [OF p, of length] by simp
  have ne': "?s \<noteq> []"
  proof
    assume "?s = []"
    then have "length (present xs) = 0"
      using len by simp
    then show False
      using ne by simp
  qed
  let ?m = "if odd (length ?s) then ?s ! (length ?s div 2)
            else (?s ! (length ?s div 2 - 1) + ?s ! (length ?s div 2)) / 2"
  have pos: "0 < length ?s"
    using ne' length_greater_0_conv by blast
  have i: "length ?s div 2 < length ?s" "length ?s div 2 - 1 < length ?s"
    using pos by arith+
  have "col_median xs = Some (Fin ?m)"
    unfolding col_median_def sf Let_def length_map using pos i by (simp add: fsum_def finite_parts_def)
  moreover have "halves ?m ?s"
    using sorted_sort [of ?rs] ne' by (rule halves_middle)
  then have "halves ?m ?rs"
    by (simp only: halves_sort)
  ultimately show ?thesis
    by blast
qed


lemma fill_with_None: "fill_missing None zs = zs"
  by (induction zs) (auto simp: fill_missing_def split: option.splits)

lemma fill_with_Some: "None \<notin> set (fill_missing (Some v) xs)"
  by (auto simp: fill_missing_def split: option.splits)








lemma keys_apsnd [simp]: "map fst (map (apsnd f) df) = map fst df"
  by (simp add: o_def)






section \<open>The names of artists\<close>

text \<open>
  \<open>clean_artists\<close> hands the \<open>name\<close> column on as it is, restricted to the rows
  that \<^verbatim>\<open>drop_duplicates\<close> keeps.
\<close>

lemma artist_frame_name: "map_of (artist_frame L g fs ps df) ''name'' = map_of df ''name''"
  by (simp add: artist_frame_lookup)

lemma clean_artists_keeps_name:
  assumes "clean_artists L t = Inr t'"
  shows "\<exists>m. map_of t' ''name'' = map_option (col_mask m) (map_of (rename_columns t) ''name'')"
proof -
  obtain g fs ps where
    dd: "drop_duplicates ''id'' (artist_frame L g fs ps (rename_columns t)) = Inr t'"
    using clean_artists_InrD [OF assms] by blast
  obtain ids where t': "t' = select_mask (dedup_mask ids) (artist_frame L g fs ps (rename_columns t))"
    using drop_duplicates_InrD [OF dd] by blast
  have "map_of t' ''name'' = map_option (col_mask (dedup_mask ids)) (map_of (rename_columns t) ''name'')"
    unfolding t' by (simp only: map_of_select_mask artist_frame_name)
  then show ?thesis
    by (rule exI [of _ "dedup_mask ids"])
qed

text \<open>
  C5. \<open>clean_artists\<close> fills every missing \<open>name\<close> with \<^verbatim>\<open>"Unknown"\<close>. The cleaner of
  \<^verbatim>\<open>src/cleaner.py\<close> has no statement on the column: the table below, whose second
  artist has no name, is returned as it came, the name still missing.
\<close>

theorem clean_artists_leaves_missing_name:
  "clean_artists example_lib unnamed_artists = Inr unnamed_artists"
  by code_simp

section \<open>Missing values after cleaning\<close>

text \<open>
  What \<open>clean_tracks\<close> and \<open>clean_features\<close> return, column by column: the column of
  the renamed input, its missing values filled with its median, restricted to the rows
  \<^verbatim>\<open>drop_duplicates\<close> keeps.
\<close>

lemma clean_tracks_columns:
  assumes "clean_tracks L t = Inr t'"
  shows "\<exists>ids. map_of (rename_columns t) ''id'' = Some ids
           \<and> (\<forall>k. k \<noteq> ''release_date'' \<longrightarrow>
                  map_of t' k = map_option (\<lambda>c. col_mask (dedup_mask (fillna_median ids)) (fillna_median c))
                                  (map_of (rename_columns t) k))"
proof -
  let ?t1 = "rename_columns t"
  obtain rd where dd: "drop_duplicates ''id'' (track_frame L rd ?t1) = Inr t'"
    using clean_tracks_InrD [OF assms] by blast
  obtain c where c: "map_of (track_frame L rd ?t1) ''id'' = Some c"
    and t': "t' = select_mask (dedup_mask c) (track_frame L rd ?t1)"
    using drop_duplicates_InrD [OF dd] by blast
  have look: "map_of (track_frame L rd ?t1) k = map_option fillna_median (map_of ?t1 k)"
    if "k \<noteq> ''release_date''" for k
    using that by (simp add: track_frame_def map_of_apsnd map_of_update)
  obtain ids where ids: "map_of ?t1 ''id'' = Some ids" and cc: "c = fillna_median ids"
    using c look [of "''id''"] by auto
  have "map_of t' k = map_option (\<lambda>c. col_mask (dedup_mask (fillna_median ids)) (fillna_median c))
                        (map_of ?t1 k)"
    if "k \<noteq> ''release_date''" for k
    unfolding t' cc map_of_select_mask look [OF that] by (simp add: option.map_comp o_def)
  then show ?thesis
    using ids by blast
qed

lemma clean_features_columns:
  assumes "clean_features f = Inr f'"
  shows "\<exists>ids. map_of (rename_columns f) ''track_id'' = Some ids
           \<and> (\<forall>k. map_of f' k = map_option (\<lambda>c. col_mask (dedup_mask (fillna_median ids)) (fillna_median c))
                                  (map_of (rename_columns f) k))"
proof -
  let ?f1 = "rename_columns f"
  have dd: "drop_duplicates ''track_id'' (map (apsnd fillna_median) ?f1) = Inr f'"
    using assms by (simp only: clean_features_unfold)
  obtain c where c: "map_of (map (apsnd fillna_median) ?f1) ''track_id'' = Some c"
    and f': "f' = select_mask (dedup_mask c) (map (apsnd fillna_median) ?f1)"
    using drop_duplicates_InrD [OF dd] by blast
  obtain ids where ids: "map_of ?f1 ''track_id'' = Some ids" and cc: "c = fillna_median ids"
    using c by (auto simp: map_of_apsnd)
  have "map_of f' k = map_option (\<lambda>c. col_mask (dedup_mask (fillna_median ids)) (fillna_median c))
                        (map_of ?f1 k)" for k
    unfolding f' cc map_of_select_mask map_of_apsnd by (simp add: option.map_comp o_def)
  then show ?thesis
    using ids by blast
qed

text \<open>A cast that returns has taken every missing value to 0.\<close>

lemma sequence_InrD:
  "sequence (map g cs) = Inr ys \<Longrightarrow>
   length ys = length cs \<and> (\<forall>i < length cs. g (cs ! i) = Inr (ys ! i))"
proof (induction cs arbitrary: ys)
  case Nil
  then show ?case by simp
next
  case (Cons c cs)
  from Cons.prems obtain y ys' where
    y: "g c = Inr y" and s: "sequence (map g cs) = Inr ys'" and ys: "ys = y # ys'"
    by (auto split: sum.splits)
  show ?case
    using Cons.IH [OF s] y by (auto simp: ys nth_Cons')
qed

lemma obj_astype_int_na: "is_na v \<Longrightarrow> obj_astype_int L v = Inr 0"
  by (cases v) simp_all

lemma length_present: "None \<notin> set ds \<Longrightarrow> length (present ds) = length ds"
proof (induction ds)
  case Nil
  then show ?case by simp
next
  case (Cons d ds)
  then show ?case by (cases d) simp_all
qed

lemma fillna0_zero:
  assumes "fillna0_astype_int L c = Inr fs"
  shows "length fs = length (cells_of c)
         \<and> (\<forall>i < length fs. is_na (cells_of c ! i) \<longrightarrow> fs ! i = 0)"
proof (cases c)
  case (IntCol xs)
  then show ?thesis using assms by auto
next
  case (FloatCol xs)
  then have s: "sequence (map float_astype_int xs) = Inr fs"
    using assms by (simp add: floats_astype_int_def)
  have "fs ! i = 0" if "i < length xs" "is_na (float_cell (xs ! i))" for i
  proof -
    have "xs ! i = None"
      using that(2) by (cases "xs ! i") simp_all
    then show ?thesis
      using sequence_InrD [OF s] that(1) by auto
  qed
  then show ?thesis
    using sequence_InrD [OF s] FloatCol by simp
next
  case (DateCol ds)
  show ?thesis
  proof (cases "None \<in> set ds")
    case True
    then have s: "sequence (map (obj_astype_int L) (map date_cell ds)) = Inr fs"
      using assms DateCol by simp
    have "fs ! i = 0" if "i < length ds" "is_na (date_cell (ds ! i))" for i
      using sequence_InrD [OF s] that obj_astype_int_na [of "date_cell (ds ! i)" L] by auto
    then show ?thesis
      using sequence_InrD [OF s] DateCol by simp
  next
    case False
    then have fs: "fs = map (date_ns L) (present ds)"
      using assms DateCol by simp
    have "\<not> is_na (date_cell (ds ! i))" if "i < length ds" for i
    proof -
      have "ds ! i \<noteq> None"
        using False that by (metis nth_mem)
      then show ?thesis
        by (cases "ds ! i") simp_all
    qed
    then show ?thesis
      using False DateCol by (simp add: fs length_present)
  qed
next
  case (ObjCol cs)
  then have s: "sequence (map (obj_astype_int L) cs) = Inr fs"
    using assms by simp
  have "fs ! i = 0" if "i < length cs" "is_na (cs ! i)" for i
    using sequence_InrD [OF s] that obj_astype_int_na [of "cs ! i" L] by auto
  then show ?thesis
    using sequence_InrD [OF s] ObjCol by simp
qed

lemma clean_artists_counts:
  assumes "clean_artists L a = Inr a'"
  shows "\<exists>ids fc pc fs ps.
           map_of (rename_columns a) ''id'' = Some ids
         \<and> map_of (rename_columns a) ''followers'' = Some fc
         \<and> map_of (rename_columns a) ''popularity'' = Some pc
         \<and> fillna0_astype_int L fc = Inr fs
         \<and> fillna0_astype_int L pc = Inr ps
         \<and> map_of a' ''followers'' = Some (IntCol (filter_mask (dedup_mask ids) fs))
         \<and> map_of a' ''popularity'' = Some (IntCol (filter_mask (dedup_mask ids) ps))"
proof -
  let ?a1 = "rename_columns a"
  obtain g fc pc fs ps where
    f: "map_of ?a1 ''followers'' = Some fc" and p: "map_of ?a1 ''popularity'' = Some pc" and
    cf: "fillna0_astype_int L fc = Inr fs" and cp: "fillna0_astype_int L pc = Inr ps" and
    dd: "drop_duplicates ''id'' (artist_frame L g fs ps ?a1) = Inr a'"
    using clean_artists_InrD [OF assms] by blast
  obtain c where c: "map_of (artist_frame L g fs ps ?a1) ''id'' = Some c"
    and a': "a' = select_mask (dedup_mask c) (artist_frame L g fs ps ?a1)"
    using drop_duplicates_InrD [OF dd] by blast
  have ids: "map_of ?a1 ''id'' = Some c"
    using c by (simp add: artist_frame_lookup)
  have "map_of a' ''followers'' = Some (IntCol (filter_mask (dedup_mask c) fs))"
       "map_of a' ''popularity'' = Some (IntCol (filter_mask (dedup_mask c) ps))"
    by (simp_all add: a' map_of_select_mask artist_frame_lookup)
  then show ?thesis
    using ids f p cf cp by blast
qed

lemma fill_missing_Some:
  "fill_missing (Some v) xs = map (\<lambda>x. Some (case x of None \<Rightarrow> v | Some y \<Rightarrow> y)) xs"
  by (induction xs) (auto simp: fill_missing_def split: option.splits)

text \<open>
  C4 (amended). After \<open>clean_tracks\<close> and \<open>clean_features\<close> every numeric column
  other than \<open>release_date\<close> is the column of the input with its missing values filled
  with the median of that column, taken over all rows of the input, and restricted to
  the rows \<^verbatim>\<open>drop_duplicates\<close> keeps; an integer column is left as it is. Where the
  median is a number \<open>v\<close>, every missing value has become \<open>v\<close> and none is left; where
  the column has no median, nothing is filled, and a column that is missing throughout
  has none. The median of a column that holds a value and no infinity is a number with
  at least half of the values on either side. After \<open>clean_artists\<close> the columns
  \<open>followers\<close> and \<open>popularity\<close> are integer columns, the casts of the input columns
  restricted to the rows kept, with 0 wherever the input was missing.
\<close>

theorem cleaned_numeric_columns:
  "(clean_tracks L t = Inr t' \<longrightarrow>
      (\<exists>ids. map_of (rename_columns t) ''id'' = Some ids
         \<and> (\<forall>k. k \<noteq> ''release_date'' \<longrightarrow>
              (\<forall>xs. map_of (rename_columns t) k = Some (FloatCol xs) \<longrightarrow>
                 map_of t' k = Some (FloatCol (filter_mask (dedup_mask (fillna_median ids))
                                                (fill_missing (col_median xs) xs))))
            \<and> (\<forall>ns. map_of (rename_columns t) k = Some (IntCol ns) \<longrightarrow>
                 map_of t' k = Some (IntCol (filter_mask (dedup_mask (fillna_median ids)) ns))))))
   \<and> (clean_features f = Inr f' \<longrightarrow>
      (\<exists>ids. map_of (rename_columns f) ''track_id'' = Some ids
         \<and> (\<forall>k.
              (\<forall>xs. map_of (rename_columns f) k = Some (FloatCol xs) \<longrightarrow>
                 map_of f' k = Some (FloatCol (filter_mask (dedup_mask (fillna_median ids))
                                                (fill_missing (col_median xs) xs))))
            \<and> (\<forall>ns. map_of (rename_columns f) k = Some (IntCol ns) \<longrightarrow>
                 map_of f' k = Some (IntCol (filter_mask (dedup_mask (fillna_median ids)) ns))))))
   \<and> (clean_artists L a = Inr a' \<longrightarrow>
      (\<exists>ids fc pc fs ps.
           map_of (rename_columns a) ''id'' = Some ids
         \<and> map_of (rename_columns a) ''followers'' = Some fc
         \<and> map_of (rename_columns a) ''popularity'' = Some pc
         \<and> fillna0_astype_int L fc = Inr fs
         \<and> fillna0_astype_int L pc = Inr ps
         \<and> map_of a' ''followers'' = Some (IntCol (filter_mask (dedup_mask ids) fs))
         \<and> map_of a' ''popularity'' = Some (IntCol (filter_mask (dedup_mask ids) ps))
         \<and> length fs = length (cells_of fc)
         \<and> (\<forall>i < length fs. is_na (cells_of fc ! i) \<longrightarrow> fs ! i = 0)
         \<and> length ps = length (cells_of pc)
         \<and> (\<forall>i < length ps. is_na (cells_of pc ! i) \<longrightarrow> ps ! i = 0)))
   \<and> (col_median xs = Some v \<longrightarrow>
        fill_missing (col_median xs) xs = map (\<lambda>x. Some (case x of None \<Rightarrow> v | Some y \<Rightarrow> y)) xs
        \<and> None \<notin> set (fill_missing (col_median xs) xs))
   \<and> (col_median ys = None \<longrightarrow> fill_missing (col_median ys) ys = ys)
   \<and> (present zs = [] \<longrightarrow> col_median zs = None)
   \<and> (Some PInf \<notin> set ws \<and> Some NInf \<notin> set ws \<and> present ws \<noteq> [] \<longrightarrow>
        (\<exists>m. col_median ws = Some (Fin m) \<and> halves m (finite_parts (present ws))))"
proof (intro conjI impI)
  assume "clean_tracks L t = Inr t'"
  then obtain ids where ids: "map_of (rename_columns t) ''id'' = Some ids"
    and cols: "\<And>k. k \<noteq> ''release_date'' \<Longrightarrow>
                 map_of t' k = map_option (\<lambda>c. col_mask (dedup_mask (fillna_median ids)) (fillna_median c))
                                 (map_of (rename_columns t) k)"
    using clean_tracks_columns by blast
  have "\<forall>k. k \<noteq> ''release_date'' \<longrightarrow>
              (\<forall>xs. map_of (rename_columns t) k = Some (FloatCol xs) \<longrightarrow>
                 map_of t' k = Some (FloatCol (filter_mask (dedup_mask (fillna_median ids))
                                                (fill_missing (col_median xs) xs))))
            \<and> (\<forall>ns. map_of (rename_columns t) k = Some (IntCol ns) \<longrightarrow>
                 map_of t' k = Some (IntCol (filter_mask (dedup_mask (fillna_median ids)) ns)))"
    using cols by simp
  then show "\<exists>ids. map_of (rename_columns t) ''id'' = Some ids
         \<and> (\<forall>k. k \<noteq> ''release_date'' \<longrightarrow>
              (\<forall>xs. map_of (rename_columns t) k = Some (FloatCol xs) \<longrightarrow>
                 map_of t' k = Some (FloatCol (filter_mask (dedup_mask (fillna_median ids))
                                                (fill_missing (col_median xs) xs))))
            \<and> (\<forall>ns. map_of (rename_columns t) k = Some (IntCol ns) \<longrightarrow>
                 map_of t' k = Some (IntCol (filter_mask (dedup_mask (fillna_median ids)) ns))))"
    using ids by blast
next
  assume "clean_features f = Inr f'"
  then obtain ids where ids: "map_of (rename_columns f) ''track_id'' = Some ids"
    and cols: "\<And>k. map_of f' k = map_option (\<lambda>c. col_mask (dedup_mask (fillna_median ids)) (fillna_median c))
                                 (map_of (rename_columns f) k)"
    using clean_features_columns by blast
  have "\<forall>k.
              (\<forall>xs. map_of (rename_columns f) k = Some (FloatCol xs) \<longrightarrow>
                 map_of f' k = Some (FloatCol (filter_mask (dedup_mask (fillna_median ids))
                                                (fill_missing (col_median xs) xs))))
            \<and> (\<forall>ns. map_of (rename_columns f) k = Some (IntCol ns) \<longrightarrow>
                 map_of f' k = Some (IntCol (filter_mask (dedup_mask (fillna_median ids)) ns)))"
    using cols by simp
  then show "\<exists>ids. map_of (rename_columns f) ''track_id'' = Some ids
         \<and> (\<forall>k.
              (\<forall>xs. map_of (rename_columns f) k = Some (FloatCol xs) \<longrightarrow>
                 map_of f' k = Some (FloatCol (filter_mask (dedup_mask (fillna_median ids))
                                                (fill_missing (col_median xs) xs))))
            \<and> (\<forall>ns. map_of (rename_columns f) k = Some (IntCol ns) \<longrightarrow>
                 map_of f' k = Some (IntCol (filter_mask (dedup_mask (fillna_median ids)) ns))))"
    using ids by blast
next
  assume "clean_artists L a = Inr a'"
  then obtain ids fc pc fs ps where
    c: "map_of (rename_columns a) ''id'' = Some ids"
       "map_of (rename_columns a) ''followers'' = Some fc"
       "map_of (rename_columns a) ''popularity'' = Some pc"
       "fillna0_astype_int L fc = Inr fs"
       "fillna0_astype_int L pc = Inr ps"
       "map_of a' ''followers'' = Some (IntCol (filter_mask (dedup_mask ids) fs))"
       "map_of a' ''popularity'' = Some (IntCol (filter_mask (dedup_mask ids) ps))"
    using clean_artists_counts by blast
  show "\<exists>ids fc pc fs ps.
           map_of (rename_columns a) ''id'' = Some ids
         \<and> map_of (rename_columns a) ''followers'' = Some fc
         \<and> map_of (rename_columns a) ''popularity'' = Some pc
         \<and> fillna0_astype_int L fc = Inr fs
         \<and> fillna0_astype_int L pc = Inr ps
         \<and> map_of a' ''followers'' = Some (IntCol (filter_mask (dedup_mask ids) fs))
         \<and> map_of a' ''popularity'' = Some (IntCol (filter_mask (dedup_mask ids) ps))
         \<and> length fs = length (cells_of fc)
         \<and> (\<forall>i < length fs. is_na (cells_of fc ! i) \<longrightarrow> fs ! i = 0)
         \<and> length ps = length (cells_of pc)
         \<and> (\<forall>i < length ps. is_na (cells_of pc ! i) \<longrightarrow> ps ! i = 0)"
    using c fillna0_zero [OF c(4)] fillna0_zero [OF c(5)] by blast
next
  assume m: "col_median xs = Some v"
  show "fill_missing (col_median xs) xs = map (\<lambda>x. Some (case x of None \<Rightarrow> v | Some y \<Rightarrow> y)) xs"
    unfolding m by (rule fill_missing_Some)
  show "None \<notin> set (fill_missing (col_median xs) xs)"
    unfolding m by (rule fill_with_Some)
next
  assume "col_median ys = None"
  then show "fill_missing (col_median ys) ys = ys"
    by (simp add: fill_with_None)
next
  assume "present zs = []"
  then show "col_median zs = None"
    by (rule col_median_Nil)
next
  assume "Some PInf \<notin> set ws \<and> Some NInf \<notin> set ws \<and> present ws \<noteq> []"
  then show "\<exists>m. col_median ws = Some (Fin m) \<and> halves m (finite_parts (present ws))"
    using col_median_finite by blast
qed

theorem cleaned_numeric_columns_witness:
  "clean_tracks example_lib raw_tracks = Inr cleaned_tracks
   \<and> clean_features raw_features = Inr cleaned_features
   \<and> clean_artists example_lib raw_artists = Inr cleaned_artists
   \<and> col_median [None, Some (Fin 1), Some (Fin 2), Some (Fin 5)] = Some (Fin 2)
   \<and> col_median [None, None, None, None] = None
   \<and> present [None, None, None, None :: float64 option] = []
   \<and> Some PInf \<notin> set [None, Some (Fin 1), Some (Fin 2), Some (Fin 5)]
   \<and> Some NInf \<notin> set [None, Some (Fin 1), Some (Fin 2), Some (Fin 5)]
   \<and> present [None, Some (Fin 1), Some (Fin 2), Some (Fin 5)] \<noteq> []
   \<and> map_of (rename_columns raw_tracks) ''energy''
       = Some (FloatCol [None, Some (Fin 1), Some (Fin 2), Some (Fin 5)])
   \<and> map_of cleaned_tracks ''energy'' = Some (FloatCol [Some (Fin 2), Some (Fin 1), Some (Fin 2)])
   \<and> map_of cleaned_tracks ''tempo'' = Some (FloatCol [None, None, None])
   \<and> map_of cleaned_features ''danceability'' = Some (FloatCol [Some (Fin (1 / 2)), Some (Fin (3 / 4))])
   \<and> map_of cleaned_artists ''followers'' = Some (IntCol [3, 0])
   \<and> map_of cleaned_artists ''popularity'' = Some (IntCol [12, 0])
   \<and> fill_missing (col_median [None, Some (Fin 1), Some (Fin 2), Some (Fin 5)])
        [None, Some (Fin 1), Some (Fin 2), Some (Fin 5)]
       = [Some (Fin 2), Some (Fin 1), Some (Fin 2), Some (Fin 5)]
   \<and> halves 2 [1, 2, 5]
   \<and> (\<exists>ids. map_of (rename_columns raw_tracks) ''id'' = Some ids
         \<and> map_of cleaned_tracks ''energy''
             = Some (FloatCol (filter_mask (dedup_mask (fillna_median ids))
                 (fill_missing (col_median [None, Some (Fin 1), Some (Fin 2), Some (Fin 5)])
                    [None, Some (Fin 1), Some (Fin 2), Some (Fin 5)]))))"
proof -
  let ?e = "[None, Some (Fin 1), Some (Fin 2), Some (Fin 5)]"
  let ?n = "[None, None, None, None :: float64 option]"
  have t: "clean_tracks example_lib raw_tracks = Inr cleaned_tracks"
    by code_simp
  have f: "clean_features raw_features = Inr cleaned_features"
    by code_simp
  have a: "clean_artists example_lib raw_artists = Inr cleaned_artists"
    by code_simp
  have m: "col_median ?e = Some (Fin 2)" "col_median ?n = None" "present ?n = []"
    by code_simp+
  have fin: "Some PInf \<notin> set ?e" "Some NInf \<notin> set ?e" "present ?e \<noteq> []"
    by simp_all
  have e: "map_of (rename_columns raw_tracks) ''energy'' = Some (FloatCol ?e)"
    by code_simp
  have c: "map_of cleaned_tracks ''energy'' = Some (FloatCol [Some (Fin 2), Some (Fin 1), Some (Fin 2)])"
    "map_of cleaned_tracks ''tempo'' = Some (FloatCol [None, None, None])"
    "map_of cleaned_features ''danceability'' = Some (FloatCol [Some (Fin (1 / 2)), Some (Fin (3 / 4))])"
    "map_of cleaned_artists ''followers'' = Some (IntCol [3, 0])"
    "map_of cleaned_artists ''popularity'' = Some (IntCol [12, 0])"
    by (simp_all add: cleaned_tracks_def cleaned_features_def cleaned_artists_def)
  have fm: "fill_missing (col_median ?e) ?e = [Some (Fin 2), Some (Fin 1), Some (Fin 2), Some (Fin 5)]"
    by code_simp
  have h: "halves 2 [1, 2, 5]"
    by code_simp
  note inst = cleaned_numeric_columns [of example_lib raw_tracks cleaned_tracks raw_features
      cleaned_features raw_artists cleaned_artists ?e "Fin 2" ?n ?n ?e]
  note first = inst [THEN conjunct1, THEN mp, OF t]
  obtain ids where ids: "map_of (rename_columns raw_tracks) ''id'' = Some ids"
    and cols: "\<forall>k. k \<noteq> ''release_date'' \<longrightarrow>
              (\<forall>xs. map_of (rename_columns raw_tracks) k = Some (FloatCol xs) \<longrightarrow>
                 map_of cleaned_tracks k = Some (FloatCol (filter_mask (dedup_mask (fillna_median ids))
                                                (fill_missing (col_median xs) xs))))
            \<and> (\<forall>ns. map_of (rename_columns raw_tracks) k = Some (IntCol ns) \<longrightarrow>
                 map_of cleaned_tracks k = Some (IntCol (filter_mask (dedup_mask (fillna_median ids)) ns)))"
    using first by (elim exE conjE)
  have ne: "''energy'' \<noteq> ''release_date''"
    by simp
  have "map_of cleaned_tracks ''energy''
             = Some (FloatCol (filter_mask (dedup_mask (fillna_median ids)) (fill_missing (col_median ?e) ?e)))"
    using cols [rule_format, THEN conjunct1, rule_format, OF ne e] .
  then have ex: "\<exists>ids. map_of (rename_columns raw_tracks) ''id'' = Some ids
         \<and> map_of cleaned_tracks ''energy''
             = Some (FloatCol (filter_mask (dedup_mask (fillna_median ids)) (fill_missing (col_median ?e) ?e)))"
    using ids by (intro exI [of _ ids] conjI)
  show ?thesis
    using t f a m fin e c fm h ex by - (intro conjI; assumption)
qed

text \<open>
  The claim as stated leaves no missing value in any numeric column. A float column that
  is missing throughout (what \<^verbatim>\<open>read_csv\<close> makes of an empty column) comes out of
  \<open>clean_tracks\<close> unchanged, and so does the missing tempo beside an infinite and a
  minus infinite one, whose median is \<open>NaN\<close>.
\<close>

theorem all_missing_column_counterexample:
  "clean_tracks example_lib silent_tracks
     = Inr [(''id'', IntCol [1, 2]),
            (''release_date'', DateCol [Some (Timestamp 2020 1 5), Some (Timestamp 2021 3 3)]),
            (''tempo'', FloatCol [None, None])]
   \<and> is_numeric (FloatCol [None, None])
   \<and> \<not> no_missing (FloatCol [None, None])
   \<and> clean_tracks example_lib unbounded_tracks
     = Inr [(''id'', IntCol [1, 2]),
            (''release_date'', DateCol [Some (Timestamp 2020 1 5), Some (Timestamp 2020 1 5)]),
            (''tempo'', FloatCol [None, Some PInf])]
   \<and> is_numeric (FloatCol [None, Some PInf])
   \<and> \<not> no_missing (FloatCol [None, Some PInf])"
proof -
  have "clean_tracks example_lib silent_tracks
     = Inr [(''id'', IntCol [1, 2]),
            (''release_date'', DateCol [Some (Timestamp 2020 1 5), Some (Timestamp 2021 3 3)]),
            (''tempo'', FloatCol [None, None])]"
    by code_simp
  moreover have "clean_tracks example_lib unbounded_tracks
     = Inr [(''id'', IntCol [1, 2]),
            (''release_date'', DateCol [Some (Timestamp 2020 1 5), Some (Timestamp 2020 1 5)]),
            (''tempo'', FloatCol [None, Some PInf])]"
    by code_simp
  ultimately show ?thesis
    by (simp add: no_missing_def)
qed

section \<open>The follower and popularity counts of artists\<close>

text \<open>
  \<open>clean_artists\<close> casts the two columns as they are. A missing value becomes 0 (see
  above) and a number is truncated toward zero; nothing makes a negative count
  non-negative.
\<close>

lemma negative_followers_stay:
  "clean_artists example_lib
     [(''id'', IntCol [1, 2, 3]),
      (''genres'', ObjCol [StrV ''pop'', StrV ''rock'', StrV ''jazz'']),
      (''followers'', FloatCol [Some (Fin (7 / 2)), None, Some (Fin (- 5))]),
      (''popularity'', ObjCol [IntV 50, Null, FloatV (Fin (3 / 2))])]
   = Inr [(''id'', IntCol [1, 2, 3]),
          (''genres'', ObjCol [StrV ''pop'', StrV ''rock'', StrV ''jazz'']),
          (''followers'', IntCol [3, 0, - 5]),
          (''popularity'', IntCol [50, 0, 1])]"
  by code_simp

text \<open>
  A value that fails numeric parsing reaches \<^verbatim>\<open>astype(int)\<close> as it is, with no
  \<^verbatim>\<open>pd.to_numeric(errors='coerce')\<close> before it: whatever the other values are, text that
  is no integer literal makes the cast, and the cleaner, raise.
\<close>

lemma sequence_Inl:
  assumes "i < length cs" "g (cs ! i) = Inl e" "\<forall>j < i. \<exists>y. g (cs ! j) = Inr y"
  shows "sequence (map g cs) = Inl e"
  using assms
proof (induction cs arbitrary: i)
  case Nil
  then show ?case by simp
next
  case (Cons c cs)
  show ?case
  proof (cases i)
    case 0
    then show ?thesis using Cons.prems by simp
  next
    case (Suc k)
    then obtain y where y: "g c = Inr y"
      using Cons.prems(3) by fastforce
    have "sequence (map g cs) = Inl e"
    proof (rule Cons.IH [of k])
      show "k < length cs" using Cons.prems(1) Suc by simp
      show "g (cs ! k) = Inl e" using Cons.prems(2) Suc by simp
      show "\<forall>j < k. \<exists>y. g (cs ! j) = Inr y"
      proof (intro allI impI)
        fix j assume "j < k"
        then have "Suc j < i" using Suc by simp
        then show "\<exists>y. g (cs ! j) = Inr y"
          using Cons.prems(3) by fastforce
      qed
    qed
    then show ?thesis
      using y by simp
  qed
qed

lemma first_text_raises:
  assumes "i < length cs" "cs ! i = StrV s" "int_of_str L s = None"
    and "\<forall>j < i. \<exists>y. obj_astype_int L (cs ! j) = Inr y"
  shows "fillna0_astype_int L (ObjCol cs) = Inl ValueError"
proof -
  have "obj_astype_int L (cs ! i) = Inl ValueError"
    using assms(2,3) by simp
  then show ?thesis
    using sequence_Inl [OF assms(1) _ assms(4)] by simp
qed

text \<open>
  C6. \<open>clean_artists\<close> coerces \<open>followers\<close> and \<open>popularity\<close> to integers without
  raising, a value that fails numeric parsing becoming 0. The cleaner of
  \<^verbatim>\<open>src/cleaner.py\<close> does not: on the table below, whose one follower count is the text
  \<^verbatim>\<open>many\<close>, it raises \<^verbatim>\<open>ValueError\<close>.
\<close>

theorem clean_artists_raises_on_text:
  "clean_artists example_lib text_artists = Inl ValueError"
  by code_simp

section \<open>Missing genres\<close>

lemma cleaned_genres_na: "is_na v \<Longrightarrow> cleaned_genres L v = StrV ''unknown''"
proof -
  have "clean_genres_str ''Unknown'' = ''unknown''"
    by code_simp
  then show "is_na v \<Longrightarrow> cleaned_genres L v = StrV ''unknown''"
    by (simp add: cleaned_genres_def clean_genres_cell_def)
qed

lemma split_unknown: "split_genres ''unknown'' = [''unknown'']"
  by code_simp

lemma unknown_token:
  "literal_eval L ''unknown'' = Inl ValueError \<Longrightarrow> is_na v \<Longrightarrow>
   genre_tokens_spec L (cleaned_genres L v) = [StrS ''unknown'']"
  by (simp add: cleaned_genres_na genre_tokens_spec_def split_unknown)

lemma count_tokens:
  assumes "\<And>a. P a \<Longrightarrow> f a = [u]"
  shows "length (filter P xs) \<le> count_list (concat (map f xs)) u"
proof (induction xs)
  case Nil
  then show ?case by simp
next
  case (Cons x xs)
  have "count_list (concat (map f (x # xs))) u = count_list (f x) u + count_list (concat (map f xs)) u"
    by simp
  moreover have "P x \<Longrightarrow> count_list (f x) u = 1"
    using assms by simp
  ultimately show ?case
    using Cons by (cases "P x") simp_all
qed

lemma dropna_cleaned: "dropna (map (cleaned_genres L) cs) = map (cleaned_genres L) cs"
  by (simp add: dropna_def)

lemma list_all_filter_mask: "list_all P xs \<Longrightarrow> list_all P (filter_mask m xs)"
  using set_filter_mask [of m xs] by (auto simp: list_all_iff)

lemma clean_artists_genres:
  assumes cl: "clean_artists L t = Inr t'"
  shows "\<exists>g ids. map_of (rename_columns t) ''genres'' = Some g
           \<and> map_of (rename_columns t) ''id'' = Some ids
           \<and> map_of t' ''genres''
               = Some (ObjCol (map (cleaned_genres L) (filter_mask (dedup_mask ids) (cells_of g))))"
proof -
  obtain g fs ps where
    g: "map_of (rename_columns t) ''genres'' = Some g" and
    dd: "drop_duplicates ''id'' (artist_frame L g fs ps (rename_columns t)) = Inr t'"
    using clean_artists_InrD [OF cl] by blast
  obtain c where c: "map_of (artist_frame L g fs ps (rename_columns t)) ''id'' = Some c"
    and t': "t' = select_mask (dedup_mask c) (artist_frame L g fs ps (rename_columns t))"
    using drop_duplicates_InrD [OF dd] by blast
  have ids: "map_of (rename_columns t) ''id'' = Some c"
    using c by (simp add: artist_frame_lookup)
  have "map_of t' ''genres''
          = Some (ObjCol (map (cleaned_genres L) (filter_mask (dedup_mask c) (cells_of g))))"
    by (simp add: t' map_of_select_mask artist_frame_lookup filter_mask_map)
  then show ?thesis
    using g ids by blast
qed

text \<open>
  Where \<open>genre_distribution\<close> returns, the specification's sentence holds: a row whose
  \<open>genres\<close> is missing leaves \<open>clean_artists\<close> with the string \<^verbatim>\<open>unknown\<close> (\<open>kept\<close> are
  the values of the rows that survive \<^verbatim>\<open>drop_duplicates\<close>), and the tokens counted on
  the cleaned table hold \<^verbatim>\<open>unknown\<close> once for every such row at least.
\<close>

lemma missing_genres_counted:
  assumes cl: "clean_artists L t = Inr t'"
      and g: "map_of (rename_columns t) ''genres'' = Some g"
      and ids: "map_of (rename_columns t) ''id'' = Some ids"
      and lit: "literal_eval L ''unknown'' = Inl ValueError"
      and ok: "list_all (literal_ok L) (map (cleaned_genres L) (cells_of g))"
      and kept: "kept = filter_mask (dedup_mask ids) (cells_of g)"
      and toks: "tokens = concat (map (genre_tokens_spec L) (map (cleaned_genres L) kept))"
  shows "map_of t' ''genres'' = Some (ObjCol (map (cleaned_genres L) kept))
       \<and> length (filter is_na kept) \<le> count_list tokens (StrS ''unknown'')
       \<and> genre_distribution L t' = Inr (value_counts L tokens)"
proof -
  have gen: "map_of t' ''genres'' = Some (ObjCol (map (cleaned_genres L) kept))"
    using clean_artists_genres [OF cl] g ids by (auto simp: kept)
  have ok': "list_all (literal_ok L) (cells_of (ObjCol (map (cleaned_genres L) kept)))"
    using list_all_filter_mask [OF ok, of "dedup_mask ids"] by (simp add: kept filter_mask_map)
  have cnt: "length (filter is_na kept) \<le> count_list tokens (StrS ''unknown'')"
    unfolding toks map_map
    by (rule count_tokens) (simp add: unknown_token [OF lit])
  have "genre_distribution L t' = Inr (value_counts L tokens)"
    using genre_distribution_value_counts [OF gen ok'] by (simp add: toks dropna_cleaned)
  then show ?thesis
    using gen cnt by blast
qed


end
